theory Spec2Isabelle
  imports Complex_Main "HOL-Library.Sublist" "HOL-Library.AList" "HOL-Library.Multiset"
    "HOL-Library.Log_Nat"
begin

section \<open>Strings\<close>

text \<open>
  A Python \<open>str\<close> is modelled as a \<open>string\<close> holding the bytes of its UTF-8 encoding.
  Every pattern, keyword and vocabulary entry of the program is ASCII, and substring search
  on UTF-8 bytes agrees with substring search on code points.

  \<open>str.lower\<close> applies the case mapping of Unicode, a table that is not part of the
  program: it also maps characters outside ASCII to ASCII letters (the Kelvin sign U+212A to
  \<open>k\<close>, U+0130 to \<open>i\<close> followed by U+0307). The functions that call it take it as their
  first argument \<open>str_lower\<close>, and what is proved of them holds for every such function.
  \<open>ascii_lower\<close> is \<open>str.lower\<close> on texts of ASCII characters, where it maps \<open>A\<close> to
  \<open>Z\<close> to \<open>a\<close> to \<open>z\<close> and nothing else; the instances on concrete texts use it, on
  ASCII texts.

  \<open>str.strip\<close> is modelled on ASCII white space. The white space outside ASCII that Python
  also strips has no byte in common with the keywords, which begin and end with a letter,
  so the keyword tests on the stripped text do not depend on it.
\<close>

definition char_lower :: "char \<Rightarrow> char" where
  "char_lower c =
     (case map_of (zip ''ABCDEFGHIJKLMNOPQRSTUVWXYZ'' ''abcdefghijklmnopqrstuvwxyz'') c of
        Some d \<Rightarrow> d
      | None \<Rightarrow> c)"

definition ascii_lower :: "string \<Rightarrow> string" where
  "ascii_lower s = map char_lower s"

text \<open>The ASCII characters for which \<open>str.isspace\<close> holds: tab, line feed, vertical tab,
  form feed, carriage return, the separators 0x1C to 0x1F, and the space.\<close>

definition is_space :: "char \<Rightarrow> bool" where
  "is_space c = (c \<in> set [CHR 0x09, CHR 0x0A, CHR 0x0B, CHR 0x0C, CHR 0x0D,
                            CHR 0x1C, CHR 0x1D, CHR 0x1E, CHR 0x1F, CHR 0x20])"

definition strip :: "string \<Rightarrow> string" where
  "strip s = rev (dropWhile is_space (rev (dropWhile is_space s)))"

text \<open>Python's \<open>sub in s\<close> on strings: \<open>sub\<close> occurs in \<open>s\<close> as a contiguous substring.\<close>

fun str_in :: "string \<Rightarrow> string \<Rightarrow> bool" where
  "str_in sub [] = (sub = [])"
| "str_in sub (c # cs) = (prefix sub (c # cs) \<or> str_in sub cs)"

text \<open>\<open>any(w in s for w in ws)\<close>.\<close>

definition any_in :: "string list \<Rightarrow> string \<Rightarrow> bool" where
  "any_in ws s = list_ex (\<lambda>w. str_in w s) ws"

section \<open>The regular expressions of the pattern table\<close>

text \<open>
  Every regular expression of \<open>CONCERN_PATTERNS\<close> is one parenthesised group of literal
  alternatives, \<open>(a|b|c)\<close>, with no other metacharacter. \<open>re.search\<close> on such a pattern
  succeeds exactly when one of the alternatives occurs in the text.
\<close>

fun split_bar :: "string \<Rightarrow> string \<Rightarrow> string list" where
  "split_bar acc [] = [acc]"
| "split_bar acc (c # cs) =
     (if c = CHR ''|'' then acc # split_bar [] cs else split_bar (acc @ [c]) cs)"

definition alternatives :: "string \<Rightarrow> string list" where
  "alternatives pat = split_bar [] (butlast (tl pat))"

definition re_search :: "string \<Rightarrow> string \<Rightarrow> bool" where
  "re_search pat s = list_ex (\<lambda>alt. str_in alt s) (alternatives pat)"

section \<open>Data model\<close>

record concern_info =
  ci_patterns :: "string list"
  ci_urgency :: string
  ci_response_level :: string

record detected_concern =
  dc_type :: string
  dc_urgency :: string
  dc_response_level :: string

record analysis =
  detected_concerns :: "detected_concern list"
  highest_urgency :: string
  needs_immediate_help :: bool
  needs_professional_help :: bool

record resource_info =
  ri_name :: string
  ri_description :: string
  ri_resources :: "string list"

text \<open>A Python \<open>dict\<close> keeps its keys in insertion order: an association list.\<close>

type_synonym concern_table = "(string \<times> concern_info) list"
type_synonym resource_table = "(string \<times> resource_info) list"

datatype py_error = KeyError string

section \<open>The tables of \<open>src/main.py\<close>\<close>

definition CONCERN_PATTERNS :: concern_table where
  "CONCERN_PATTERNS =
    [(''crisis_immediate'',
       \<lparr>ci_patterns =
          [''(suicide|kill myself|end my life|want to die|better off dead)'',
           ''(going to hurt myself|self harm|cutting|self injury)'',
           ''(no reason to live|can't go on|end it all)''],
        ci_urgency = ''immediate'',
        ci_response_level = ''crisis''\<rparr>),
     (''depression_signs'',
       \<lparr>ci_patterns =
          [''(depressed|clinical depression|major depression)'',
           ''(hopeless|worthless|empty inside)'',
           ''(can't get out of bed|no energy|no motivation)'',
           ''(losing interest|don't enjoy anything)'',
           ''(crying every day|constant sadness)'',
           ''(sleeping too much|too little|appetite changes)'',
           ''(thoughts of death|suicidal thoughts)''],
        ci_urgency = ''high'',
        ci_response_level = ''professional''\<rparr>),
     (''anxiety_signs'',
       \<lparr>ci_patterns =
          [''(panic attack|anxiety attack)'',
           ''(constant worry|can't stop worrying)'',
           ''(heart racing|can't breathe|chest tight)'',
           ''(avoiding situations|too anxious to)'',
           ''(obsessive thoughts|compulsive behaviors)''],
        ci_urgency = ''moderate'',
        ci_response_level = ''professional''\<rparr>),
     (''trauma_signs'',
       \<lparr>ci_patterns =
          [''(flashbacks|nightmares|ptsd)'',
           ''(traumatic memory|childhood trauma)'',
           ''(triggered|reminded of trauma)'',
           ''(dissociating|feeling numb)''],
        ci_urgency = ''high'',
        ci_response_level = ''professional''\<rparr>)]"

definition MENTAL_HEALTH_RESOURCES :: resource_table where
  "MENTAL_HEALTH_RESOURCES =
    [(''immediate_crisis'',
       \<lparr>ri_name = ''Immediate Crisis Support'',
        ri_description = ''Available 24/7 for immediate help'',
        ri_resources =
          [''Vandrevala Foundation: 9999666555'',
           ''iCall: 9152987821'',
           ''AASRA: 9820466726'',
           ''Emergency: 112/108'']\<rparr>),
     (''therapy_services'',
       \<lparr>ri_name = ''Professional Therapy'',
        ri_description = ''Licensed mental health professionals'',
        ri_resources =
          [''Practo - Find Psychiatrists & Therapists'',
           ''Lybrate - Online Mental Health Consultations'',
           ''YourDOST - Online Counseling'',
           ''Manastha - Online Therapy'']\<rparr>),
     (''depression_support'',
       \<lparr>ri_name = ''Depression Support'',
        ri_description = ''Specialized depression resources'',
        ri_resources =
          [''Fortis Stress Helpline: +91-8376804102'',
           ''NIMHANS Bangalore: 080-46110007'',
           ''Depression and Bipolar Support Alliance'']\<rparr>),
     (''anxiety_support'',
       \<lparr>ri_name = ''Anxiety Support'',
        ri_description = ''Anxiety-specific help and tools'',
        ri_resources =
          [''Anxiety and Depression Association of America'',
           ''Calm App for anxiety management'',
           ''Headspace for mindfulness'']\<rparr>)]"

section \<open>\<open>analyze_mental_health_needs\<close> (\<open>src/main.py\<close>)\<close>

text \<open>The \<open>if/elif/elif\<close> chain that updates \<open>highest_urgency\<close> after a match: \<open>u\<close> is
  the urgency of the matched category, \<open>hu\<close> the running value.\<close>

definition update_urgency :: "string \<Rightarrow> string \<Rightarrow> string" where
  "update_urgency u hu =
     (if u = ''immediate'' then ''immediate''
      else if u = ''high'' \<and> hu \<noteq> ''immediate'' then ''high''
      else if u = ''moderate'' \<and> hu \<notin> set [''immediate'', ''high''] then ''moderate''
      else hu)"

text \<open>The inner loop over the patterns of one category. The state is the pair
  \<open>(detected_concerns, highest_urgency)\<close>; the first matching pattern appends one concern,
  updates the urgency and leaves the loop (\<open>break\<close>).\<close>

fun scan_patterns ::
  "(string \<Rightarrow> string) \<Rightarrow> string \<Rightarrow> string \<Rightarrow> concern_info \<Rightarrow> string list \<Rightarrow>
     detected_concern list \<times> string \<Rightarrow> detected_concern list \<times> string" where
  "scan_patterns str_lower text concern_type info [] st = st"
| "scan_patterns str_lower text concern_type info (pattern # rest) st =
     (if re_search pattern (str_lower text)
      then (fst st @ [\<lparr>dc_type = concern_type,
                       dc_urgency = ci_urgency info,
                       dc_response_level = ci_response_level info\<rparr>],
            update_urgency (ci_urgency info) (snd st))
      else scan_patterns str_lower text concern_type info rest st)"

text \<open>The outer loop over the items of the table, in insertion order.\<close>

fun scan_concerns ::
  "(string \<Rightarrow> string) \<Rightarrow> string \<Rightarrow> concern_table \<Rightarrow> detected_concern list \<times> string \<Rightarrow>
     detected_concern list \<times> string" where
  "scan_concerns str_lower text [] st = st"
| "scan_concerns str_lower text (item # items) st =
     scan_concerns str_lower text items
       (scan_patterns str_lower text (fst item) (snd item) (ci_patterns (snd item)) st)"

definition analyze_with :: "(string \<Rightarrow> string) \<Rightarrow> concern_table \<Rightarrow> string \<Rightarrow> analysis" where
  "analyze_with str_lower table text =
     (let st = scan_concerns str_lower text table ([], ''low'')
      in \<lparr>detected_concerns = fst st,
          highest_urgency = snd st,
          needs_immediate_help = (snd st = ''immediate''),
          needs_professional_help = (snd st \<in> set [''immediate'', ''high''])\<rparr>)"

definition analyze_mental_health_needs :: "(string \<Rightarrow> string) \<Rightarrow> string \<Rightarrow> analysis" where
  "analyze_mental_health_needs str_lower text = analyze_with str_lower CONCERN_PATTERNS text"

section \<open>\<open>get_recommended_resources\<close> (\<open>src/main.py\<close>)\<close>

text \<open>The loop over the detected concerns, appending to \<open>resource_categories\<close>.\<close>

fun add_concern_categories :: "detected_concern list \<Rightarrow> string list \<Rightarrow> string list" where
  "add_concern_categories [] resource_categories = resource_categories"
| "add_concern_categories (concern # rest) resource_categories =
     add_concern_categories rest
       (if dc_type concern = ''depression_signs''
        then resource_categories @ [''depression_support'']
        else if dc_type concern = ''anxiety_signs''
        then resource_categories @ [''anxiety_support'']
        else if dc_type concern = ''trauma_signs''
        then resource_categories @ [''therapy_services'']
        else resource_categories)"

definition resource_categories_of :: "analysis \<Rightarrow> string list" where
  "resource_categories_of a =
     (let rc0 = [];
          rc1 = (if needs_immediate_help a then rc0 @ [''immediate_crisis''] else rc0);
          rc2 = (if needs_professional_help a then rc1 @ [''therapy_services''] else rc1)
      in add_concern_categories (detected_concerns a) rc2)"

text \<open>The loop \<open>resources[category] = self.MENTAL_HEALTH_RESOURCES[category]\<close>: the lookup
  raises \<open>KeyError\<close> on a missing key; the assignment overwrites the entry of a key already
  present and appends a new key at the end.\<close>

fun fill_resources ::
  "resource_table \<Rightarrow> string list \<Rightarrow> resource_table \<Rightarrow> py_error + resource_table" where
  "fill_resources table [] resources = Inr resources"
| "fill_resources table (category # rest) resources =
     (case map_of table category of
        None \<Rightarrow> Inl (KeyError category)
      | Some info \<Rightarrow> fill_resources table rest (AList.update category info resources))"

text \<open>
  \<open>list(set(resource_categories))\<close> lists the distinct elements in an order Python leaves
  unspecified. The first argument \<open>list_set\<close> stands for that conversion; \<open>set_listing\<close>
  says what is known of it.
\<close>

definition set_listing :: "(string list \<Rightarrow> string list) \<Rightarrow> bool" where
  "set_listing list_set = (\<forall>xs. set (list_set xs) = set xs \<and> distinct (list_set xs))"

definition get_recommended_resources ::
  "(string list \<Rightarrow> string list) \<Rightarrow> analysis \<Rightarrow> py_error + resource_table" where
  "get_recommended_resources list_set a =
     (let unique_categories = list_set (resource_categories_of a)
      in fill_resources MENTAL_HEALTH_RESOURCES unique_categories [])"

section \<open>\<open>create_mental_health_response\<close> (\<open>src/main.py\<close>)\<close>

text \<open>The bullet is U+2022, three bytes in UTF-8.\<close>

definition bullet_line :: "string \<Rightarrow> string" where
  "bullet_line resource = [CHR 0xE2, CHR 0x80, CHR 0xA2] @ '' '' @ resource @ ''\<newline>''"

fun add_bullets :: "string list \<Rightarrow> string \<Rightarrow> string" where
  "add_bullets [] response = response"
| "add_bullets (resource # rest) response = add_bullets rest (response @ bullet_line resource)"

fun add_professional :: "resource_table \<Rightarrow> string \<Rightarrow> string" where
  "add_professional [] response = response"
| "add_professional (item # rest) response =
     add_professional rest
       (if fst item \<noteq> ''immediate_crisis''
        then add_bullets (ri_resources (snd item))
               (response @ ''\<newline>'' @ ri_name (snd item) @ '' - '' @
                  ri_description (snd item) @ '':\<newline>'')
        else response)"

fun add_general :: "resource_table \<Rightarrow> string \<Rightarrow> string" where
  "add_general [] response = response"
| "add_general (item # rest) response =
     add_general rest
       (add_bullets (take 2 (ri_resources (snd item)))
          (response @ ''\<newline>'' @ ri_name (snd item) @ '':\<newline>''))"

definition crisis_preface :: string where
  "crisis_preface =
     ''I'm deeply concerned about your safety.\<newline>\<newline>'' @
     ''What you're describing sounds incredibly painful, and your safety is the most '' @
     ''important thing right now.\<newline>\<newline>'' @
     ''Please reach out to these crisis services immediately:\<newline>''"

definition crisis_closing :: string where
  "crisis_closing =
     ''\<newline>You don't have to face this alone - there are trained professionals '' @
     ''available right now who want to help you.''"

definition create_mental_health_response ::
  "string \<Rightarrow> analysis \<Rightarrow> resource_table \<Rightarrow> string" where
  "create_mental_health_response user_message a resources =
     (if needs_immediate_help a then
        add_bullets
          (case map_of resources ''immediate_crisis'' of
             None \<Rightarrow> []
           | Some info \<Rightarrow> ri_resources info)
          crisis_preface
        @ crisis_closing
      else if needs_professional_help a then
        add_professional resources
          (''Thank you for sharing this with me.\<newline>\<newline>'' @
           ''What you're experiencing sounds really challenging, and it takes courage to '' @
           ''talk about it. These feelings deserve proper professional support.'' @
           ''\<newline>\<newline>'' @
           ''I strongly recommend connecting with these resources:\<newline>'')
        @ ''\<newline>A mental health professional can provide the proper assessment and '' @
          ''support you deserve.''
      else
        add_general resources
          (''I hear you.\<newline>\<newline>'' @
           ''It sounds like you're going through a difficult time. While I'm here to '' @
           ''listen and offer perspectives, these resources might be helpful for '' @
           ''additional support:\<newline>'')
        @ ''\<newline>Remember that seeking support is a sign of strength, not weakness.'')"

section \<open>Notions used to state the properties of the classifier\<close>

text \<open>A category matches a text when one of its patterns is found in the lower-cased text;
  \<open>concern_of\<close> is the record appended for a matching category; \<open>matched\<close> keeps the
  matching categories of a table, in table order.\<close>

definition category_matches :: "(string \<Rightarrow> string) \<Rightarrow> string \<Rightarrow> concern_info \<Rightarrow> bool" where
  "category_matches str_lower text info =
     list_ex (\<lambda>p. re_search p (str_lower text)) (ci_patterns info)"

definition concern_of :: "string \<times> concern_info \<Rightarrow> detected_concern" where
  "concern_of item =
     \<lparr>dc_type = fst item,
      dc_urgency = ci_urgency (snd item),
      dc_response_level = ci_response_level (snd item)\<rparr>"

definition matched :: "(string \<Rightarrow> string) \<Rightarrow> concern_table \<Rightarrow> string \<Rightarrow> concern_table" where
  "matched str_lower table text =
     filter (\<lambda>item. category_matches str_lower text (snd item)) table"

text \<open>The order \<open>immediate > high > moderate > low\<close> as a rank; a string that is none of
  the four levels ranks with \<open>low\<close>. \<open>max_urgency\<close> is the level of greatest rank in a
  list of urgencies, \<open>low\<close> for the empty list.\<close>

definition urgency_rank :: "string \<Rightarrow> nat" where
  "urgency_rank u =
     (if u = ''immediate'' then 3 else if u = ''high'' then 2
      else if u = ''moderate'' then 1 else 0)"

definition urgency_of_rank :: "nat \<Rightarrow> string" where
  "urgency_of_rank n =
     (if n = 3 then ''immediate'' else if n = 2 then ''high''
      else if n = 1 then ''moderate'' else ''low'')"

definition max_urgency :: "string list \<Rightarrow> string" where
  "max_urgency us = urgency_of_rank (Max (set (0 # map urgency_rank us)))"

section \<open>Notions used to state the properties of the crisis response\<close>

text \<open>\<open>crisis_message\<close> is the crisis preface, one bullet line for each hotline of the
  catalogue entry \<open>immediate_crisis\<close>, and the closing sentence. \<open>other_resource_lines\<close>
  are the resource lines of the other catalogue entries. \<open>crisis_lines_of\<close> is
  \<open>resources.get("immediate_crisis", {}).get("resources", [])\<close>.\<close>

definition crisis_message :: string where
  "crisis_message =
     crisis_preface @
     bullet_line ''Vandrevala Foundation: 9999666555'' @
     bullet_line ''iCall: 9152987821'' @
     bullet_line ''AASRA: 9820466726'' @
     bullet_line ''Emergency: 112/108'' @
     crisis_closing"

definition other_resource_lines :: "string list" where
  "other_resource_lines =
     concat (map (\<lambda>item. ri_resources (snd item))
       (filter (\<lambda>item. fst item \<noteq> ''immediate_crisis'') MENTAL_HEALTH_RESOURCES))"

definition crisis_lines_of :: "resource_table \<Rightarrow> string list" where
  "crisis_lines_of resources =
     (case map_of resources ''immediate_crisis'' of
        None \<Rightarrow> []
      | Some info \<Rightarrow> ri_resources info)"

section \<open>Floating-point numbers\<close>

text \<open>
  A Python \<open>float\<close> is an IEEE 754 binary64 number. A finite float is modelled by the
  rational it denotes, and every arithmetic operation by the exact operation followed by
  rounding to the nearest float, ties to even: \<open>rnd64\<close>. A float has 53 significant bits
  and an exponent of at least \<open>-1022\<close>. Magnitudes from \<open>2 ^ 1024\<close> on (overflow) and
  the sign of zero are not modelled: the program's floats are sentiment scores of
  magnitude at most 1 and values computed from them, all below 2.
\<close>

definition round_half_even :: "rat \<Rightarrow> int" where
  "round_half_even x =
     (let f = \<lfloor>x\<rfloor>; r = x - of_int f
      in if r < 1 / 2 then f
         else if 1 / 2 < r then f + 1
         else if even f then f else f + 1)"

text \<open>For \<open>x > 0\<close>, the exponent \<open>e\<close> with \<open>2 ^ e \<le> x < 2 ^ (e + 1)\<close>.\<close>

definition expo :: "rat \<Rightarrow> int" where
  "expo x =
     (let e = bitlen (fst (quotient_of x)) - bitlen (snd (quotient_of x))
      in if 2 powi e \<le> x then e else e - 1)"

definition ulp_exp :: "rat \<Rightarrow> int" where
  "ulp_exp x = max (expo \<bar>x\<bar>) (- 1022) - 52"

definition rnd64 :: "rat \<Rightarrow> rat" where
  "rnd64 x =
     (if x = 0 then 0
      else of_int (round_half_even (x / 2 powi ulp_exp x)) * 2 powi ulp_exp x)"

definition fadd :: "rat \<Rightarrow> rat \<Rightarrow> rat" where
  "fadd x y = rnd64 (x + y)"

definition fmul :: "rat \<Rightarrow> rat \<Rightarrow> rat" where
  "fmul x y = rnd64 (x * y)"

definition fdiv :: "rat \<Rightarrow> rat \<Rightarrow> rat" where
  "fdiv x y = rnd64 (x / y)"

text \<open>\<open>round(x, 3)\<close>: the decimal with three places nearest to the exact value of \<open>x\<close>,
  ties to even, converted back to the nearest float.\<close>

definition py_round3 :: "rat \<Rightarrow> rat" where
  "py_round3 x = rnd64 (of_int (round_half_even (x * 1000)) / 1000)"

section \<open>\<open>analyze_sympathy\<close> (\<open>src/main.py\<close>)\<close>

record sympathy =
  polarity :: rat
  subjectivity :: rat
  sympathy_score :: rat
  sympathy_level :: string

text \<open>The score computed from the rounded polarity and subjectivity: the lines
  \<open>negative_factor\<close>, \<open>raw_score\<close>, \<open>sympathy_score\<close>. The literals \<open>0.0\<close>, \<open>1.0\<close>
  and \<open>1.5\<close> are floats exactly.\<close>

definition compute_sympathy_score :: "rat \<Rightarrow> rat \<Rightarrow> rat" where
  "compute_sympathy_score pol subj =
     (let negative_factor = max 0 (- pol);
          raw_score = fmul negative_factor (fadd 1 subj)
      in min 1 (fdiv raw_score (3 / 2)))"

text \<open>The level chosen from the score; the literals \<open>0.66\<close> and \<open>0.33\<close> are the floats
  nearest to these decimals.\<close>

definition level_of_score :: "rat \<Rightarrow> string" where
  "level_of_score score =
     (if rnd64 (66 / 100) \<le> score then ''high''
      else if rnd64 (33 / 100) \<le> score then ''moderate''
      else ''low'')"

text \<open>\<open>TextBlob(text).sentiment\<close> is an external primitive: the argument \<open>sentiment\<close>
  gives its polarity and subjectivity for a text.\<close>

definition analyze_sympathy :: "(string \<Rightarrow> rat \<times> rat) \<Rightarrow> string \<Rightarrow> sympathy" where
  "analyze_sympathy sentiment text =
     (let pol = py_round3 (fst (sentiment text));
          subj = py_round3 (snd (sentiment text));
          score = compute_sympathy_score pol subj
      in \<lparr>polarity = pol,
          subjectivity = subj,
          sympathy_score = py_round3 score,
          sympathy_level = level_of_score score\<rparr>)"

section \<open>\<open>generate_comprehensive_response\<close> (\<open>src/main.py\<close>)\<close>

record response =
  response_type :: string
  message :: string
  mental_health_analysis :: analysis
  resources_provided :: resource_table
  sympathy_analysis :: sympathy

definition base_response_of :: "string \<Rightarrow> string \<times> string" where
  "base_response_of user_lower =
     (if any_in [''sad'', ''depressed'', ''hopeless'', ''empty'', ''can't get out of bed'']
           user_lower
      then (''I hear the pain in what you're sharing. In Jungian terms, these dark '' @
            ''periods can be the beginning '' @
            ''of deep transformation. Your awareness of these feelings shows courage.'',
            ''depression_support'')
      else if any_in [''anxious'', ''worried'', ''panic'', ''overwhelmed'', ''stress'']
           user_lower
      then (''That sense of anxiety can be really challenging. Jung spoke about how '' @
            ''anxiety often comes from '' @
            ''parts of ourselves trying to be heard.'',
            ''anxiety_support'')
      else if any_in [''dream'', ''dreamt'', ''dreamed'', ''nightmare''] user_lower
      then (''Dreams are messages from your unconscious self. In Jungian psychology, '' @
            ''every dream element can '' @
            ''offer material worth exploring.'',
            ''dream_analysis'')
      else if any_in [''trauma'', ''flashback'', ''ptsd'', ''nightmare''] user_lower
      then (''What you've experienced sounds deeply impactful. Jung believed the psyche '' @
            ''has a capacity for healing.'',
            ''trauma_support'')
      else (''Thank you for sharing that with me. I'm here to listen and help you find '' @
            ''the right support on your '' @
            ''journey toward wholeness.'',
            ''general_support''))"

definition empathy_preface_of :: "sympathy \<Rightarrow> string" where
  "empathy_preface_of sa =
     (if sympathy_level sa = ''high''
      then ''I want you to know I am truly sorry you're going through this. '' @
           ''You're not alone in how you feel.\<newline>\<newline>''
      else if sympathy_level sa = ''moderate''
      then ''I can hear that this is difficult for you, and I'm here to support you.'' @
           ''\<newline>\<newline>''
      else [])"

definition generate_comprehensive_response ::
  "(string \<Rightarrow> string) \<Rightarrow> (string \<Rightarrow> rat \<times> rat) \<Rightarrow> (string list \<Rightarrow> string list) \<Rightarrow>
     string \<Rightarrow> string \<Rightarrow> py_error + response" where
  "generate_comprehensive_response str_lower sentiment list_set user_message session_id =
     (let analysis = analyze_mental_health_needs str_lower user_message
      in case get_recommended_resources list_set analysis of
           Inl e \<Rightarrow> Inl e
         | Inr resources \<Rightarrow>
             (let sympathy = analyze_sympathy sentiment user_message;
                  user_lower = str_lower user_message;
                  base_response = fst (base_response_of user_lower);
                  rtype = snd (base_response_of user_lower);
                  empathy_preface = empathy_preface_of sympathy;
                  resource_response =
                    create_mental_health_response user_message analysis resources;
                  full_response =
                    empathy_preface @ base_response @ ''\<newline>\<newline>'' @ resource_response
              in Inr \<lparr>response_type = rtype,
                      message = full_response,
                      mental_health_analysis = analysis,
                      resources_provided = resources,
                      sympathy_analysis = sympathy\<rparr>))"

section \<open>The copy of the resource guide in \<open>src/unnamed/part_000\<close>\<close>

text \<open>
  The second source file, \<open>New Jungian Model.py\<close>, has its own class
  \<open>MentalHealthResourceGuide\<close> and its own \<open>analyze_sympathy\<close>. They are embedded
  here from that file, under the names of the source with the suffix \<open>_p0\<close>.
\<close>

definition CONCERN_PATTERNS_p0 :: concern_table where
  "CONCERN_PATTERNS_p0 =
    [(''crisis_immediate'',
       \<lparr>ci_patterns =
          [''(suicide|kill myself|end my life|want to die|better off dead)'',
           ''(going to hurt myself|self harm|cutting|self injury)'',
           ''(no reason to live|can't go on|end it all)''],
        ci_urgency = ''immediate'',
        ci_response_level = ''crisis''\<rparr>),
     (''depression_signs'',
       \<lparr>ci_patterns =
          [''(depressed|clinical depression|major depression)'',
           ''(hopeless|worthless|empty inside)'',
           ''(can't get out of bed|no energy|no motivation)'',
           ''(losing interest|don't enjoy anything)'',
           ''(crying every day|constant sadness)'',
           ''(sleeping too much|too little|appetite changes)'',
           ''(thoughts of death|suicidal thoughts)''],
        ci_urgency = ''high'',
        ci_response_level = ''professional''\<rparr>),
     (''anxiety_signs'',
       \<lparr>ci_patterns =
          [''(panic attack|anxiety attack)'',
           ''(constant worry|can't stop worrying)'',
           ''(heart racing|can't breathe|chest tight)'',
           ''(avoiding situations|too anxious to)'',
           ''(obsessive thoughts|compulsive behaviors)''],
        ci_urgency = ''moderate'',
        ci_response_level = ''professional''\<rparr>),
     (''trauma_signs'',
       \<lparr>ci_patterns =
          [''(flashbacks|nightmares|ptsd)'',
           ''(traumatic memory|childhood trauma)'',
           ''(triggered|reminded of trauma)'',
           ''(dissociating|feeling numb)''],
        ci_urgency = ''high'',
        ci_response_level = ''professional''\<rparr>)]"

definition MENTAL_HEALTH_RESOURCES_p0 :: resource_table where
  "MENTAL_HEALTH_RESOURCES_p0 =
    [(''immediate_crisis'',
       \<lparr>ri_name = ''Immediate Crisis Support'',
        ri_description = ''Available 24/7 for immediate help'',
        ri_resources =
          [''Vandrevala Foundation: 9999666555'',
           ''iCall: 9152987821'',
           ''AASRA: 9820466726'',
           ''Emergency: 112/108'']\<rparr>),
     (''therapy_services'',
       \<lparr>ri_name = ''Professional Therapy'',
        ri_description = ''Licensed mental health professionals'',
        ri_resources =
          [''Practo - Find Psychiatrists & Therapists'',
           ''Lybrate - Online Mental Health Consultations'',
           ''YourDOST - Online Counseling'',
           ''Manastha - Online Therapy'']\<rparr>),
     (''depression_support'',
       \<lparr>ri_name = ''Depression Support'',
        ri_description = ''Specialized depression resources'',
        ri_resources =
          [''Fortis Stress Helpline: +91-8376804102'',
           ''NIMHANS Bangalore: 080-46110007'',
           ''Depression and Bipolar Support Alliance'']\<rparr>),
     (''anxiety_support'',
       \<lparr>ri_name = ''Anxiety Support'',
        ri_description = ''Anxiety-specific help and tools'',
        ri_resources =
          [''Anxiety and Depression Association of America'',
           ''Calm App for anxiety management'',
           ''Headspace for mindfulness'']\<rparr>)]"

definition update_urgency_p0 :: "string \<Rightarrow> string \<Rightarrow> string" where
  "update_urgency_p0 u hu =
     (if u = ''immediate'' then ''immediate''
      else if u = ''high'' \<and> hu \<noteq> ''immediate'' then ''high''
      else if u = ''moderate'' \<and> hu \<notin> set [''immediate'', ''high''] then ''moderate''
      else hu)"

fun scan_patterns_p0 ::
  "(string \<Rightarrow> string) \<Rightarrow> string \<Rightarrow> string \<Rightarrow> concern_info \<Rightarrow> string list \<Rightarrow>
     detected_concern list \<times> string \<Rightarrow> detected_concern list \<times> string" where
  "scan_patterns_p0 str_lower text concern_type info [] st = st"
| "scan_patterns_p0 str_lower text concern_type info (pattern # rest) st =
     (if re_search pattern (str_lower text)
      then (fst st @ [\<lparr>dc_type = concern_type,
                       dc_urgency = ci_urgency info,
                       dc_response_level = ci_response_level info\<rparr>],
            update_urgency_p0 (ci_urgency info) (snd st))
      else scan_patterns_p0 str_lower text concern_type info rest st)"

fun scan_concerns_p0 ::
  "(string \<Rightarrow> string) \<Rightarrow> string \<Rightarrow> concern_table \<Rightarrow> detected_concern list \<times> string \<Rightarrow>
     detected_concern list \<times> string" where
  "scan_concerns_p0 str_lower text [] st = st"
| "scan_concerns_p0 str_lower text (item # items) st =
     scan_concerns_p0 str_lower text items
       (scan_patterns_p0 str_lower text (fst item) (snd item) (ci_patterns (snd item)) st)"

definition analyze_mental_health_needs_p0 :: "(string \<Rightarrow> string) \<Rightarrow> string \<Rightarrow> analysis" where
  "analyze_mental_health_needs_p0 str_lower text =
     (let st = scan_concerns_p0 str_lower text CONCERN_PATTERNS_p0 ([], ''low'')
      in \<lparr>detected_concerns = fst st,
          highest_urgency = snd st,
          needs_immediate_help = (snd st = ''immediate''),
          needs_professional_help = (snd st \<in> set [''immediate'', ''high''])\<rparr>)"

fun add_concern_categories_p0 :: "detected_concern list \<Rightarrow> string list \<Rightarrow> string list" where
  "add_concern_categories_p0 [] resource_categories = resource_categories"
| "add_concern_categories_p0 (concern # rest) resource_categories =
     add_concern_categories_p0 rest
       (if dc_type concern = ''depression_signs''
        then resource_categories @ [''depression_support'']
        else if dc_type concern = ''anxiety_signs''
        then resource_categories @ [''anxiety_support'']
        else if dc_type concern = ''trauma_signs''
        then resource_categories @ [''therapy_services'']
        else resource_categories)"

definition resource_categories_of_p0 :: "analysis \<Rightarrow> string list" where
  "resource_categories_of_p0 a =
     (let rc0 = [];
          rc1 = (if needs_immediate_help a then rc0 @ [''immediate_crisis''] else rc0);
          rc2 = (if needs_professional_help a then rc1 @ [''therapy_services''] else rc1)
      in add_concern_categories_p0 (detected_concerns a) rc2)"

fun fill_resources_p0 ::
  "resource_table \<Rightarrow> string list \<Rightarrow> resource_table \<Rightarrow> py_error + resource_table" where
  "fill_resources_p0 table [] resources = Inr resources"
| "fill_resources_p0 table (category # rest) resources =
     (case map_of table category of
        None \<Rightarrow> Inl (KeyError category)
      | Some info \<Rightarrow> fill_resources_p0 table rest (AList.update category info resources))"

definition get_recommended_resources_p0 ::
  "(string list \<Rightarrow> string list) \<Rightarrow> analysis \<Rightarrow> py_error + resource_table" where
  "get_recommended_resources_p0 list_set a =
     (let unique_categories = list_set (resource_categories_of_p0 a)
      in fill_resources_p0 MENTAL_HEALTH_RESOURCES_p0 unique_categories [])"

definition bullet_line_p0 :: "string \<Rightarrow> string" where
  "bullet_line_p0 resource = [CHR 0xE2, CHR 0x80, CHR 0xA2] @ '' '' @ resource @ ''\<newline>''"

fun add_bullets_p0 :: "string list \<Rightarrow> string \<Rightarrow> string" where
  "add_bullets_p0 [] response = response"
| "add_bullets_p0 (resource # rest) response =
     add_bullets_p0 rest (response @ bullet_line_p0 resource)"

fun add_professional_p0 :: "resource_table \<Rightarrow> string \<Rightarrow> string" where
  "add_professional_p0 [] response = response"
| "add_professional_p0 (item # rest) response =
     add_professional_p0 rest
       (if fst item \<noteq> ''immediate_crisis''
        then add_bullets_p0 (ri_resources (snd item))
               (response @ ''\<newline>'' @ ri_name (snd item) @ '' - '' @
                  ri_description (snd item) @ '':\<newline>'')
        else response)"

fun add_general_p0 :: "resource_table \<Rightarrow> string \<Rightarrow> string" where
  "add_general_p0 [] response = response"
| "add_general_p0 (item # rest) response =
     add_general_p0 rest
       (add_bullets_p0 (take 2 (ri_resources (snd item)))
          (response @ ''\<newline>'' @ ri_name (snd item) @ '':\<newline>''))"

definition crisis_preface_p0 :: string where
  "crisis_preface_p0 =
     ''I'm deeply concerned about your safety.\<newline>\<newline>'' @
     ''What you're describing sounds incredibly painful, and your safety is the most '' @
     ''important thing right now.\<newline>\<newline>'' @
     ''Please reach out to these crisis services immediately:\<newline>''"

definition crisis_closing_p0 :: string where
  "crisis_closing_p0 =
     ''\<newline>You don't have to face this alone - there are trained professionals '' @
     ''available right now who want to help you.''"

definition create_mental_health_response_p0 ::
  "string \<Rightarrow> analysis \<Rightarrow> resource_table \<Rightarrow> string" where
  "create_mental_health_response_p0 user_message a resources =
     (if needs_immediate_help a then
        add_bullets_p0
          (case map_of resources ''immediate_crisis'' of
             None \<Rightarrow> []
           | Some info \<Rightarrow> ri_resources info)
          crisis_preface_p0
        @ crisis_closing_p0
      else if needs_professional_help a then
        add_professional_p0 resources
          (''Thank you for sharing this with me.\<newline>\<newline>'' @
           ''What you're experiencing sounds really challenging, and it takes courage to '' @
           ''talk about it. These feelings deserve proper professional support.'' @
           ''\<newline>\<newline>'' @
           ''I strongly recommend connecting with these resources:\<newline>'')
        @ ''\<newline>A mental health professional can provide the proper assessment and '' @
          ''support you deserve.''
      else
        add_general_p0 resources
          (''I hear you.\<newline>\<newline>'' @
           ''It sounds like you're going through a difficult time. While I'm here to '' @
           ''listen and offer perspectives, these resources might be helpful for '' @
           ''additional support:\<newline>'')
        @ ''\<newline>Remember that seeking support is a sign of strength, not weakness.'')"

definition compute_sympathy_score_p0 :: "rat \<Rightarrow> rat \<Rightarrow> rat" where
  "compute_sympathy_score_p0 pol subj =
     (let negative_factor = max 0 (- pol);
          raw_score = fmul negative_factor (fadd 1 subj)
      in min 1 (fdiv raw_score (3 / 2)))"

definition level_of_score_p0 :: "rat \<Rightarrow> string" where
  "level_of_score_p0 score =
     (if rnd64 (66 / 100) \<le> score then ''high''
      else if rnd64 (33 / 100) \<le> score then ''moderate''
      else ''low'')"

definition analyze_sympathy_p0 :: "(string \<Rightarrow> rat \<times> rat) \<Rightarrow> string \<Rightarrow> sympathy" where
  "analyze_sympathy_p0 sentiment text =
     (let pol = py_round3 (fst (sentiment text));
          subj = py_round3 (snd (sentiment text));
          score = compute_sympathy_score_p0 pol subj
      in \<lparr>polarity = pol,
          subjectivity = subj,
          sympathy_score = py_round3 score,
          sympathy_level = level_of_score_p0 score\<rparr>)"

section \<open>\<open>generate_comprehensive_response\<close> (\<open>src/unnamed/part_000\<close>)\<close>

text \<open>The right single quotation mark U+2019 and the waving hand U+1F44B of the
  templates, in UTF-8.\<close>

definition rsquo :: string where
  "rsquo = [CHR 0xE2, CHR 0x80, CHR 0x99]"

definition waving_hand :: string where
  "waving_hand = [CHR 0xF0, CHR 0x9F, CHR 0x91, CHR 0x8B]"

definition greeting_vocabulary :: "string list" where
  "greeting_vocabulary =
     [''hi'', ''hello'', ''hey'', ''greetings'', ''good morning'', ''good evening'',
      ''good afternoon'']"

definition greeting_template :: string where
  "greeting_template =
     ''Hello! '' @ waving_hand @ '' It'' @ rsquo @
     ''s so nice to connect with you. How are you feeling today? '' @
     ''You can share anything on your mind, and I'' @ rsquo @
     ''m here to listen with care.''"

definition happy_vocabulary :: "string list" where
  "happy_vocabulary =
     [''happy'', ''joyful'', ''joy'', ''glad'', ''content'', ''cheerful'', ''delighted'',
      ''pleased'', ''excited'']"

definition happy_template :: string where
  "happy_template =
     ''It'' @ rsquo @ ''s wonderful to hear that you'' @ rsquo @
     ''re feeling happy! Celebrating these moments of joy is so important. '' @
     ''May your days be filled with many more such moments.''"

definition base_response_of_p0 :: "string \<Rightarrow> string \<times> string" where
  "base_response_of_p0 user_lower =
     (if any_in [''sad'', ''depressed'', ''hopeless'', ''empty'', ''can't get out of bed'',
                 ''blue'', ''down''] user_lower
      then (''I hear the profound sadness in your words. Remember, even in dark moments, '' @
            ''there is hope for renewal. Your feelings are valid and you are not alone.'',
            ''depression_support'')
      else if any_in [''anxious'', ''worried'', ''panic'', ''overwhelmed'', ''stress'',
                      ''nervous'', ''tense''] user_lower
      then (''Anxiety can feel overwhelming, but you're showing strength by speaking '' @
            ''about it. '' @
            ''Sometimes, just acknowledging these feelings is the first step to calming '' @
            ''your mind.'',
            ''anxiety_support'')
      else if any_in [''lonely'', ''isolated'', ''alone'', ''abandoned''] user_lower
      then (''Feeling alone is tough. Remember, connection is possible and you are valued. '' @
            ''Reaching out takes courage, and I'' @ rsquo @ ''m here to listen.'',
            ''loneliness_support'')
      else if any_in [''angry'', ''frustrated'', ''mad'', ''irritated''] user_lower
      then (''Anger is a natural emotion. It can be a signal that something important '' @
            ''needs attention. '' @
            ''It's okay to feel this way, and expressing it can help bring clarity and '' @
            ''relief.'',
            ''anger_support'')
      else if any_in [''grateful'', ''thankful'', ''blessed''] user_lower
      then (''Gratitude brings light into our lives. Thank you for sharing your positive '' @
            ''feelings; '' @
            ''celebrating these moments is an important part of well-being.'',
            ''gratitude_support'')
      else if any_in [''hopeful'', ''optimistic'', ''encouraged''] user_lower
      then (''It'' @ rsquo @ ''s wonderful to sense your hope and optimism. These feelings '' @
            ''can be a guiding light '' @
            ''on your path toward healing and growth.'',
            ''hope_support'')
      else if any_in [''dream'', ''dreamt'', ''dreamed'', ''nightmare''] user_lower
      then (''Dreams are voices from your unconscious. In Jungian psychology, exploring '' @
            ''them can open '' @
            ''new ways to understand your inner self.'',
            ''dream_analysis'')
      else if any_in [''trauma'', ''flashback'', ''ptsd'', ''nightmare''] user_lower
      then (''What you've experienced is deeply impactful. Healing takes time and support, '' @
            ''and Jung believed '' @
            ''in the psyche's capacity to mend itself.'',
            ''trauma_support'')
      else (''Thank you for sharing with me. I'' @ rsquo @ ''m here to hold space for your '' @
            ''journey and help you find the '' @
            ''support that suits your needs.'',
            ''general_support''))"

definition empathy_preface_of_p0 :: "sympathy \<Rightarrow> string" where
  "empathy_preface_of_p0 sa =
     (if sympathy_level sa = ''high''
      then ''I want you to know I'' @ rsquo @ ''m truly sorry you'' @ rsquo @
           ''re going through this. You are not alone.\<newline>\<newline>''
      else if sympathy_level sa = ''moderate''
      then ''I can hear that this is tough for you, and I'' @ rsquo @
           ''m here to support you.\<newline>\<newline>''
      else [])"

definition generate_comprehensive_response_p0 ::
  "(string \<Rightarrow> string) \<Rightarrow> (string \<Rightarrow> rat \<times> rat) \<Rightarrow> (string list \<Rightarrow> string list) \<Rightarrow>
     string \<Rightarrow> string \<Rightarrow> py_error + response" where
  "generate_comprehensive_response_p0 str_lower sentiment list_set user_message session_id =
     (let analysis = analyze_mental_health_needs_p0 str_lower user_message
      in case get_recommended_resources_p0 list_set analysis of
           Inl e \<Rightarrow> Inl e
         | Inr resources \<Rightarrow>
             (let sympathy = analyze_sympathy_p0 sentiment user_message;
                  user_lower = strip (str_lower user_message);
                  rtype_and_full =
                    (if any_in greeting_vocabulary user_lower
                     then (''greeting'', greeting_template)
                     else if any_in happy_vocabulary user_lower
                     then (''happy_support'', happy_template)
                     else
                       (let base_response = fst (base_response_of_p0 user_lower);
                            rtype = snd (base_response_of_p0 user_lower);
                            empathy_preface = empathy_preface_of_p0 sympathy;
                            resource_response =
                              create_mental_health_response_p0 user_message analysis
                                resources
                        in (rtype,
                            empathy_preface @ base_response @ ''\<newline>\<newline>'' @
                              resource_response)))
              in Inr \<lparr>response_type = fst rtype_and_full,
                      message = snd rtype_and_full,
                      mental_health_analysis = analysis,
                      resources_provided = resources,
                      sympathy_analysis = sympathy\<rparr>))"

section \<open>Notions used to state the properties of the composed response\<close>

text \<open>The neutral sentiment: polarity 0 and subjectivity 0 for every text.\<close>

definition neutral_sentiment :: "string \<Rightarrow> rat \<times> rat" where
  "neutral_sentiment text = (0, 0)"

text \<open>
  The reading of "the message contains a greeting word as an exact word": an entry of the
  greeting vocabulary occurs in the lower-cased message with no letter, digit or underscore
  directly before or after it.
\<close>

definition is_word_char :: "char \<Rightarrow> bool" where
  "is_word_char c =
     (c \<in> set ''abcdefghijklmnopqrstuvwxyzABCDEFGHIJKLMNOPQRSTUVWXYZ0123456789_'')"

definition occurs_as_word :: "string \<Rightarrow> string \<Rightarrow> bool" where
  "occurs_as_word w s =
     list_ex (\<lambda>i. prefix w (drop i s) \<and>
                  (i = 0 \<or> \<not> is_word_char (s ! (i - 1))) \<and>
                  (i + length w = length s \<or> \<not> is_word_char (s ! (i + length w))))
       [0..<Suc (length s)]"

definition has_greeting_word :: "(string \<Rightarrow> string) \<Rightarrow> string \<Rightarrow> bool" where
  "has_greeting_word str_lower user_message =
     list_ex (\<lambda>g. occurs_as_word g (str_lower user_message)) greeting_vocabulary"

text \<open>The response type of a result, \<open>None\<close> when an exception was raised.\<close>

definition response_type_of :: "py_error + response \<Rightarrow> string option" where
  "response_type_of res = (case res of Inl e \<Rightarrow> None | Inr r \<Rightarrow> Some (response_type r))"

text \<open>The analysis with no detected concern.\<close>

definition no_concerns :: analysis where
  "no_concerns =
     \<lparr>detected_concerns = [], highest_urgency = ''low'',
      needs_immediate_help = False, needs_professional_help = False\<rparr>"

section \<open>Properties of the classifier\<close>

lemma scan_patterns_eq:
  "scan_patterns str_lower text ct info ps st =
     (if list_ex (\<lambda>p. re_search p (str_lower text)) ps
      then (fst st @ [concern_of (ct, info)], update_urgency (ci_urgency info) (snd st))
      else st)"
  by (induction ps) (simp_all add: concern_of_def)

lemma scan_concerns_eq:
  "scan_concerns str_lower text table st =
     (fst st @ map concern_of (matched str_lower table text),
      foldl (\<lambda>hu item. update_urgency (ci_urgency (snd item)) hu) (snd st)
        (matched str_lower table text))"
proof (induction table arbitrary: st)
  case Nil
  show ?case by (simp add: matched_def)
next
  case (Cons item items)
  show ?case
    by (cases item) (simp add: Cons.IH scan_patterns_eq matched_def category_matches_def)
qed

lemma urgency_rank_le: "urgency_rank u \<le> 3"
  by (simp add: urgency_rank_def)

lemma update_urgency_rank:
  "n \<le> 3 \<Longrightarrow>
     update_urgency u (urgency_of_rank n) = urgency_of_rank (max (urgency_rank u) n)"
  by (auto simp add: update_urgency_def urgency_rank_def urgency_of_rank_def max_def)

lemma foldl_update_urgency:
  "n \<le> 3 \<Longrightarrow> foldl (\<lambda>hu item. update_urgency (ci_urgency (snd item)) hu) (urgency_of_rank n) items =
     urgency_of_rank (Max (set (n # map (\<lambda>item. urgency_rank (ci_urgency (snd item))) items)))"
proof (induction items arbitrary: n)
  case Nil
  show ?case by simp
next
  case (Cons item items)
  have le: "max (urgency_rank (ci_urgency (snd item))) n \<le> 3"
    using Cons.prems by (simp add: urgency_rank_le)
  have "Max (insert (max (urgency_rank (ci_urgency (snd item))) n)
               ((\<lambda>item. urgency_rank (ci_urgency (snd item))) ` set items)) =
        Max (insert n (insert (urgency_rank (ci_urgency (snd item)))
               ((\<lambda>item. urgency_rank (ci_urgency (snd item))) ` set items)))"
    by (cases "set items = {}") (simp_all add: max.commute max.assoc max.left_commute)
  then show ?case
    using Cons.prems by (simp add: update_urgency_rank Cons.IH [OF le])
qed

lemma highest_urgency_eq:
  "highest_urgency (analyze_with str_lower table text) =
     max_urgency (map (\<lambda>item. ci_urgency (snd item)) (matched str_lower table text))"
proof -
  have "''low'' = urgency_of_rank 0" by (simp add: urgency_of_rank_def)
  then show ?thesis
    by (simp add: analyze_with_def Let_def scan_concerns_eq foldl_update_urgency
          max_urgency_def comp_def del: One_nat_def)
qed

lemma detected_concerns_eq:
  "detected_concerns (analyze_with str_lower table text) =
     map concern_of (matched str_lower table text)"
  by (simp add: analyze_with_def Let_def scan_concerns_eq)

lemma needs_immediate_help_eq:
  "needs_immediate_help (analyze_with str_lower table text) =
     (highest_urgency (analyze_with str_lower table text) = ''immediate'')"
  by (simp add: analyze_with_def Let_def)

lemma max_urgency_immediate:
  assumes "''immediate'' \<in> set us"
  shows "max_urgency us = ''immediate''"
proof -
  let ?R = "set (0 # map urgency_rank us)"
  have "urgency_rank ''immediate'' \<in> ?R" using assms by simp
  then have "3 \<in> ?R" by (simp add: urgency_rank_def)
  then have ge: "3 \<le> Max ?R" by (intro Max_ge) simp_all
  have le: "Max ?R \<le> 3"
    by (intro Max.boundedI) (auto simp: urgency_rank_le)
  have top: "Max ?R = 3" by (rule order.antisym [OF le ge])
  have "urgency_of_rank 3 = ''immediate''" by (simp add: urgency_of_rank_def)
  then show ?thesis unfolding max_urgency_def top .
qed

lemma crisis_info_urgency:
  "(''crisis_immediate'', info) \<in> set CONCERN_PATTERNS \<Longrightarrow> ci_urgency info = ''immediate''"
  by (auto simp: CONCERN_PATTERNS_def)

text \<open>
  Claim C1. Whenever a pattern of the category \<open>crisis_immediate\<close> is found in the
  lower-cased text, the analysis has \<open>needs_immediate_help\<close> set and \<open>highest_urgency\<close>
  equal to \<open>immediate\<close>, whatever other categories match. This holds for every
  lower-casing function \<open>str_lower\<close>, so for \<open>str.lower\<close> on every text, ASCII or not.
\<close>

theorem crisis_pattern_gives_immediate:
  assumes "(''crisis_immediate'', info) \<in> set CONCERN_PATTERNS"
    and "pattern \<in> set (ci_patterns info)"
    and "re_search pattern (str_lower text)"
  shows "needs_immediate_help (analyze_mental_health_needs str_lower text) \<and>
         highest_urgency (analyze_mental_health_needs str_lower text) = ''immediate''"
proof -
  have "category_matches str_lower text info"
    using assms(2,3) by (auto simp: category_matches_def list_ex_iff)
  then have "(''crisis_immediate'', info) \<in> set (matched str_lower CONCERN_PATTERNS text)"
    using assms(1) by (simp add: matched_def)
  then have "ci_urgency info \<in>
      set (map (\<lambda>item. ci_urgency (snd item)) (matched str_lower CONCERN_PATTERNS text))"
    by force
  then have "highest_urgency (analyze_with str_lower CONCERN_PATTERNS text) = ''immediate''"
    using crisis_info_urgency [OF assms(1)]
    by (simp only: highest_urgency_eq max_urgency_immediate)
  then show ?thesis
    by (simp add: analyze_mental_health_needs_def needs_immediate_help_eq)
qed

text \<open>An instance: an ASCII text that matches a depression pattern and a crisis pattern.\<close>

theorem crisis_pattern_gives_immediate_witness:
  "re_search ''(suicide|kill myself|end my life|want to die|better off dead)''
     (ascii_lower ''I feel hopeless and I want to die'') \<and>
   needs_immediate_help
     (analyze_mental_health_needs ascii_lower ''I feel hopeless and I want to die'') \<and>
   highest_urgency
     (analyze_mental_health_needs ascii_lower ''I feel hopeless and I want to die'') =
     ''immediate''"
proof -
  let ?info = "\<lparr>ci_patterns =
          [''(suicide|kill myself|end my life|want to die|better off dead)'',
           ''(going to hurt myself|self harm|cutting|self injury)'',
           ''(no reason to live|can't go on|end it all)''],
        ci_urgency = ''immediate'',
        ci_response_level = ''crisis''\<rparr>"
  have h1: "(''crisis_immediate'', ?info) \<in> set CONCERN_PATTERNS"
    by (simp add: CONCERN_PATTERNS_def)
  have h2: "''(suicide|kill myself|end my life|want to die|better off dead)''
              \<in> set (ci_patterns ?info)"
    by simp
  have h3: "re_search ''(suicide|kill myself|end my life|want to die|better off dead)''
              (ascii_lower ''I feel hopeless and I want to die'')"
    by code_simp
  show ?thesis
    using h3 crisis_pattern_gives_immediate [where str_lower = ascii_lower, OF h1 h2 h3]
    by simp
qed

text \<open>
  Claim C7. For every text and every lower-casing function \<open>str_lower\<close>, so for
  \<open>str.lower\<close>, the detected concerns are exactly one record for each matching category,
  in the order of the table: their types form a subsequence of the declaration order
  without repetition. In the inner loop a matching pattern ends the scan: the patterns
  after it have no effect.
\<close>

theorem one_concern_per_category:
  "detected_concerns (analyze_mental_health_needs str_lower text) =
     map concern_of (matched str_lower CONCERN_PATTERNS text) \<and>
   subseq (map dc_type (detected_concerns (analyze_mental_health_needs str_lower text)))
     [''crisis_immediate'', ''depression_signs'', ''anxiety_signs'', ''trauma_signs''] \<and>
   distinct (map dc_type (detected_concerns (analyze_mental_health_needs str_lower text))) \<and>
   scan_patterns str_lower text ct info (p # rest) st =
     (if re_search p (str_lower text) then scan_patterns str_lower text ct info [p] st
      else scan_patterns str_lower text ct info rest st)"
proof -
  have types: "dc_type \<circ> concern_of = fst"
    by (simp add: fun_eq_iff concern_of_def)
  have keys: "map fst CONCERN_PATTERNS =
      [''crisis_immediate'', ''depression_signs'', ''anxiety_signs'', ''trauma_signs'']"
    by (simp add: CONCERN_PATTERNS_def)
  have sub:
    "subseq (map fst (matched str_lower CONCERN_PATTERNS text)) (map fst CONCERN_PATTERNS)"
    unfolding matched_def by (intro subseq_map subseq_filter_left)
  have "distinct (map fst CONCERN_PATTERNS)"
    unfolding keys by simp
  then have dist: "distinct (map fst (matched str_lower CONCERN_PATTERNS text))"
    unfolding matched_def by (rule distinct_map_filter)
  show ?thesis
    using sub dist
    by (simp add: analyze_mental_health_needs_def detected_concerns_eq types keys)
qed

text \<open>
  Claim C3. For every table of categories and every permutation of it, the running update
  ends with the greatest urgency among the matching categories in the order
  \<open>immediate > high > moderate > low\<close>, the same for both orders, and with \<open>low\<close> when no
  category matches.
\<close>

theorem urgency_order_independent:
  assumes "mset table' = mset table"
  shows "highest_urgency (analyze_with str_lower table' text) =
           max_urgency (map (\<lambda>item. ci_urgency (snd item)) (matched str_lower table text)) \<and>
         highest_urgency (analyze_with str_lower table' text) =
           highest_urgency (analyze_with str_lower table text) \<and>
         (matched str_lower table text = [] \<longrightarrow>
            highest_urgency (analyze_with str_lower table' text) = ''low'')"
proof -
  have "mset (matched str_lower table' text) = mset (matched str_lower table text)"
    using assms by (simp add: matched_def)
  then have "set (matched str_lower table' text) = set (matched str_lower table text)"
    by (rule mset_eq_setD)
  then have eq:
    "max_urgency (map (\<lambda>item. ci_urgency (snd item)) (matched str_lower table' text)) =
     max_urgency (map (\<lambda>item. ci_urgency (snd item)) (matched str_lower table text))"
    by (simp add: max_urgency_def)
  have low: "max_urgency [] = ''low''"
    by (simp add: max_urgency_def urgency_of_rank_def)
  show ?thesis
    using low by (auto simp add: highest_urgency_eq eq)
qed

text \<open>An instance: the table of the program reversed.\<close>

theorem urgency_order_independent_witness:
  "mset (rev CONCERN_PATTERNS) = mset CONCERN_PATTERNS \<and>
   highest_urgency
     (analyze_with ascii_lower (rev CONCERN_PATTERNS) ''panic attack, nightmares, end it all'') =
   highest_urgency
     (analyze_with ascii_lower CONCERN_PATTERNS ''panic attack, nightmares, end it all'')"
proof -
  have h: "mset (rev CONCERN_PATTERNS) = mset CONCERN_PATTERNS"
    by simp
  from urgency_order_independent
    [OF h, of ascii_lower "''panic attack, nightmares, end it all''"]
  show ?thesis
    using h by blast
qed

section \<open>Properties of resource selection and of the crisis response\<close>

lemma add_step_lower:
  "set rc \<subseteq> set (if P then rc @ [x] else if Q then rc @ [y] else if R then rc @ [z] else rc)"
  by auto

lemma add_step_upper:
  "set (if P then rc @ [x] else if Q then rc @ [y] else if R then rc @ [z] else rc)
     \<subseteq> set rc \<union> {x, y, z}"
  by auto

lemma add_concern_categories_lower:
  "set rc \<subseteq> set (add_concern_categories dcs rc)"
proof (induction dcs arbitrary: rc)
  case Nil
  show ?case by simp
next
  case (Cons c dcs)
  show ?case
    unfolding add_concern_categories.simps
    by (rule order_trans [OF add_step_lower Cons.IH])
qed

lemma add_concern_categories_upper:
  "set (add_concern_categories dcs rc) \<subseteq>
     set rc \<union> {''depression_support'', ''anxiety_support'', ''therapy_services''}"
proof (induction dcs arbitrary: rc)
  case Nil
  show ?case unfolding add_concern_categories.simps by (rule Un_upper1)
next
  case (Cons c dcs)
  have un: "A \<subseteq> B \<union> K \<Longrightarrow> B \<subseteq> C \<union> K \<Longrightarrow> A \<subseteq> C \<union> K" for A B C K :: "string set"
    by blast
  show ?case
    unfolding add_concern_categories.simps
    by (rule un [OF Cons.IH add_step_upper])
qed


lemma initial_categories:
  "resource_categories_of a =
     add_concern_categories (detected_concerns a)
       ((if needs_immediate_help a then [''immediate_crisis''] else []) @
        (if needs_professional_help a then [''therapy_services''] else []))"
  by (simp add: resource_categories_of_def Let_def)

lemma initial_set:
  "set ((if P then [x] else []) @ (if Q then [y] else [])) \<subseteq> {x, y}"
  by (cases P; cases Q; simp)

lemma initial_mem:
  "x \<noteq> y \<Longrightarrow> x \<in> set ((if P then [x] else []) @ (if Q then [y] else [])) \<longleftrightarrow> P"
  by (cases P; cases Q; simp)

lemma resource_keys:
  "fst ` set MENTAL_HEALTH_RESOURCES =
     {''immediate_crisis'', ''therapy_services'', ''depression_support'', ''anxiety_support''}"
  by (simp add: MENTAL_HEALTH_RESOURCES_def)

lemma resource_categories_known:
  "set (resource_categories_of a) \<subseteq> fst ` set MENTAL_HEALTH_RESOURCES"
proof -
  have un: "A \<subseteq> B \<union> {c, d, b} \<Longrightarrow> B \<subseteq> {a, b} \<Longrightarrow> A \<subseteq> {a, b, c, d}"
    for A B :: "string set" and a b c d
    by blast
  show ?thesis
    unfolding initial_categories resource_keys
    by (rule un [OF add_concern_categories_upper initial_set])
qed

lemma immediate_crisis_requested:
  "''immediate_crisis'' \<in> set (resource_categories_of a) \<longleftrightarrow> needs_immediate_help a"
proof -
  let ?rc = "(if needs_immediate_help a then [''immediate_crisis''] else []) @
        (if needs_professional_help a then [''therapy_services''] else [])"
  have ne: "''immediate_crisis'' \<noteq> ''therapy_services''"
    by simp
  have out: "''immediate_crisis'' \<notin>
      {''depression_support'', ''anxiety_support'', ''therapy_services''}"
    by simp
  have init: "''immediate_crisis'' \<in> set ?rc \<longleftrightarrow> needs_immediate_help a"
    by (rule initial_mem [OF ne])
  have up: "x \<in> A \<Longrightarrow> A \<subseteq> B \<union> K \<Longrightarrow> x \<notin> K \<Longrightarrow> x \<in> B" for x :: string and A B K
    by blast
  show ?thesis
  proof
    assume "''immediate_crisis'' \<in> set (resource_categories_of a)"
    then have "''immediate_crisis'' \<in> set ?rc"
      unfolding initial_categories
      by (rule up [OF _ add_concern_categories_upper out])
    then show "needs_immediate_help a"
      by (rule iffD1 [OF init])
  next
    assume "needs_immediate_help a"
    then have "''immediate_crisis'' \<in> set ?rc"
      by (rule iffD2 [OF init])
    then show "''immediate_crisis'' \<in> set (resource_categories_of a)"
      unfolding initial_categories
      by (rule subsetD [OF add_concern_categories_lower])
  qed
qed

lemma fill_resources_total:
  assumes "set cs \<subseteq> fst ` set table"
  shows "\<exists>res'. fill_resources table cs res = Inr res' \<and>
           fst ` set res' = fst ` set res \<union> set cs \<and>
           (distinct (map fst res) \<longrightarrow> distinct (map fst res')) \<and>
           (\<forall>k. map_of res' k = (if k \<in> set cs then map_of table k else map_of res k))"
  using assms
proof (induction cs arbitrary: res)
  case Nil
  show ?case by simp
next
  case (Cons c cs)
  from Cons.prems have "c \<in> fst ` set table" by simp
  then have "map_of table c \<noteq> None"
    by (simp add: map_of_eq_None_iff)
  then obtain info where info: "map_of table c = Some info"
    by blast
  from Cons.prems have "set cs \<subseteq> fst ` set table" by simp
  from Cons.IH [OF this, of "AList.update c info res"]
  obtain res' where r: "fill_resources table cs (AList.update c info res) = Inr res'"
    and k: "fst ` set res' = fst ` set (AList.update c info res) \<union> set cs"
    and d: "distinct (map fst (AList.update c info res)) \<longrightarrow> distinct (map fst res')"
    and m: "\<forall>k. map_of res' k =
              (if k \<in> set cs then map_of table k else map_of (AList.update c info res) k)"
    by blast
  have "fill_resources table (c # cs) res = Inr res'"
    using info r by simp
  moreover have "fst ` set res' = fst ` set res \<union> set (c # cs)"
    using k by (auto simp: AList.dom_update)
  moreover have "distinct (map fst res) \<longrightarrow> distinct (map fst res')"
    using d by (simp add: AList.distinct_update)
  moreover have "\<forall>k. map_of res' k = (if k \<in> set (c # cs) then map_of table k else map_of res k)"
    using m info by (auto simp: AList.update_conv')
  ultimately show ?case by blast
qed

lemma get_recommended_resources_total:
  assumes "set_listing list_set"
  shows "\<exists>resources. get_recommended_resources list_set a = Inr resources \<and>
           fst ` set resources = set (resource_categories_of a) \<and>
           distinct (map fst resources) \<and>
           (\<forall>k. map_of resources k =
              (if k \<in> set (resource_categories_of a) then map_of MENTAL_HEALTH_RESOURCES k
               else None))"
proof -
  have s: "set (list_set (resource_categories_of a)) = set (resource_categories_of a)"
    using assms by (simp add: set_listing_def)
  then have "set (list_set (resource_categories_of a)) \<subseteq> fst ` set MENTAL_HEALTH_RESOURCES"
    using resource_categories_known by simp
  from fill_resources_total [OF this, of "[]"]
  obtain res' where "fill_resources MENTAL_HEALTH_RESOURCES
        (list_set (resource_categories_of a)) [] = Inr res'"
    and "fst ` set res' = set (list_set (resource_categories_of a))"
    and "distinct (map fst res')"
    and "\<forall>k. map_of res' k =
           (if k \<in> set (list_set (resource_categories_of a))
            then map_of MENTAL_HEALTH_RESOURCES k else None)"
    by auto
  then show ?thesis
    unfolding get_recommended_resources_def Let_def s by blast
qed

lemma set_listing_remdups: "set_listing remdups"
  by (simp add: set_listing_def)


lemma add_bullets_eq:
  "add_bullets rs response = response @ concat (map bullet_line rs)"
  by (induction rs arbitrary: response) simp_all

lemma crisis_entry:
  "map_of MENTAL_HEALTH_RESOURCES ''immediate_crisis'' =
     Some \<lparr>ri_name = ''Immediate Crisis Support'',
           ri_description = ''Available 24/7 for immediate help'',
           ri_resources =
             [''Vandrevala Foundation: 9999666555'',
              ''iCall: 9152987821'',
              ''AASRA: 9820466726'',
              ''Emergency: 112/108'']\<rparr>"
  by (simp add: MENTAL_HEALTH_RESOURCES_def)

lemma crisis_response_general:
  "needs_immediate_help a \<Longrightarrow>
     create_mental_health_response user_message a resources =
       crisis_preface @ concat (map bullet_line (crisis_lines_of resources)) @ crisis_closing"
  by (simp add: create_mental_health_response_def add_bullets_eq crisis_lines_of_def)

lemma crisis_message_hotlines:
  "list_all (\<lambda>r. str_in r crisis_message)
     [''Vandrevala Foundation: 9999666555'', ''iCall: 9152987821'',
      ''AASRA: 9820466726'', ''Emergency: 112/108'']"
  by code_simp

lemma crisis_message_no_other_line:
  "list_all (\<lambda>r. \<not> str_in r crisis_message) other_resource_lines"
  by code_simp

text \<open>
  Claim C4. For every analysis, \<open>get_recommended_resources\<close> returns a bundle, and the
  bundle has the key \<open>immediate_crisis\<close> exactly when \<open>needs_immediate_help\<close> is set.
\<close>

theorem immediate_crisis_iff_immediate_help:
  assumes "set_listing list_set"
  shows "\<exists>resources. get_recommended_resources list_set a = Inr resources \<and>
           (''immediate_crisis'' \<in> fst ` set resources \<longleftrightarrow> needs_immediate_help a)"
proof -
  from get_recommended_resources_total [OF assms, of a]
  obtain resources where "get_recommended_resources list_set a = Inr resources"
    and "fst ` set resources = set (resource_categories_of a)"
    by blast
  then show ?thesis
    by (simp add: immediate_crisis_requested)
qed

text \<open>An instance: an analysis of immediate urgency, the set listed by \<open>remdups\<close>.\<close>

theorem immediate_crisis_iff_immediate_help_witness:
  "set_listing remdups \<and>
   (\<exists>resources.
      get_recommended_resources remdups
        \<lparr>detected_concerns = [], highest_urgency = ''immediate'',
         needs_immediate_help = True, needs_professional_help = True\<rparr> = Inr resources \<and>
      ''immediate_crisis'' \<in> fst ` set resources)"
proof -
  have h: "set_listing remdups"
    by (simp add: set_listing_def)
  from immediate_crisis_iff_immediate_help [OF h,
    of "\<lparr>detected_concerns = [], highest_urgency = ''immediate'',
         needs_immediate_help = True, needs_professional_help = True\<rparr>"]
  show ?thesis
    using h by simp
qed

text \<open>
  Claim C9. For every analysis, the bundle returned by \<open>get_recommended_resources\<close> holds
  each category id at most once, and its ids are those the selection rules requested, also
  when several rules request the same one.
\<close>

theorem no_duplicate_categories:
  assumes "set_listing list_set"
  shows "\<exists>resources. get_recommended_resources list_set a = Inr resources \<and>
           distinct (map fst resources) \<and>
           set (map fst resources) = set (resource_categories_of a)"
proof -
  from get_recommended_resources_total [OF assms, of a]
  obtain resources where "get_recommended_resources list_set a = Inr resources"
    and "fst ` set resources = set (resource_categories_of a)"
    and "distinct (map fst resources)"
    by blast
  then show ?thesis
    by simp
qed

text \<open>An instance: a trauma concern with professional help needed; both rules request
  \<open>therapy_services\<close>.\<close>

theorem no_duplicate_categories_witness:
  "set_listing remdups \<and>
   resource_categories_of
     \<lparr>detected_concerns =
        [\<lparr>dc_type = ''trauma_signs'', dc_urgency = ''high'',
          dc_response_level = ''professional''\<rparr>],
      highest_urgency = ''high'',
      needs_immediate_help = False, needs_professional_help = True\<rparr> =
     [''therapy_services'', ''therapy_services''] \<and>
   (\<exists>resources.
      get_recommended_resources remdups
        \<lparr>detected_concerns =
           [\<lparr>dc_type = ''trauma_signs'', dc_urgency = ''high'',
             dc_response_level = ''professional''\<rparr>],
         highest_urgency = ''high'',
         needs_immediate_help = False, needs_professional_help = True\<rparr> = Inr resources \<and>
      distinct (map fst resources))"
proof -
  let ?a = "\<lparr>detected_concerns =
        [\<lparr>dc_type = ''trauma_signs'', dc_urgency = ''high'',
          dc_response_level = ''professional''\<rparr>],
      highest_urgency = ''high'',
      needs_immediate_help = False, needs_professional_help = True\<rparr>"
  have h: "set_listing remdups"
    by (simp add: set_listing_def)
  have c: "resource_categories_of ?a = [''therapy_services'', ''therapy_services'']"
    by (simp add: resource_categories_of_def)
  from no_duplicate_categories [OF h, of ?a]
  show ?thesis
    using h c by blast
qed

text \<open>
  Claim C5. For every analysis with \<open>needs_immediate_help\<close> set, the message composed from
  the recommended resources is \<open>crisis_message\<close>: the safety preface, the four hotline lines
  of \<open>immediate_crisis\<close> and the closing sentence. For any bundle at all the lines rendered
  are those of its \<open>immediate_crisis\<close> entry only. Every hotline string occurs in the
  message and no resource line of another category does.
\<close>

theorem crisis_response_only_crisis_lines:
  assumes "set_listing list_set" and "needs_immediate_help a"
  shows "(\<exists>resources. get_recommended_resources list_set a = Inr resources \<and>
            create_mental_health_response user_message a resources = crisis_message) \<and>
         create_mental_health_response user_message a any_resources =
           crisis_preface @ concat (map bullet_line (crisis_lines_of any_resources)) @
           crisis_closing \<and>
         list_all (\<lambda>r. str_in r crisis_message)
           [''Vandrevala Foundation: 9999666555'', ''iCall: 9152987821'',
            ''AASRA: 9820466726'', ''Emergency: 112/108''] \<and>
         list_all (\<lambda>r. \<not> str_in r crisis_message) other_resource_lines"
proof -
  from get_recommended_resources_total [OF assms(1), of a]
  obtain resources where r: "get_recommended_resources list_set a = Inr resources"
    and m: "\<forall>k. map_of resources k =
              (if k \<in> set (resource_categories_of a) then map_of MENTAL_HEALTH_RESOURCES k
               else None)"
    by blast
  have "''immediate_crisis'' \<in> set (resource_categories_of a)"
    using assms(2) by (rule iffD2 [OF immediate_crisis_requested])
  then have "map_of resources ''immediate_crisis'' =
      map_of MENTAL_HEALTH_RESOURCES ''immediate_crisis''"
    using m by simp
  then have "crisis_lines_of resources =
      [''Vandrevala Foundation: 9999666555'', ''iCall: 9152987821'',
       ''AASRA: 9820466726'', ''Emergency: 112/108'']"
    by (simp add: crisis_lines_of_def crisis_entry)
  then have "create_mental_health_response user_message a resources = crisis_message"
    by (simp add: crisis_response_general [OF assms(2)] crisis_message_def)
  with r have "\<exists>resources. get_recommended_resources list_set a = Inr resources \<and>
            create_mental_health_response user_message a resources = crisis_message"
    by blast
  then show ?thesis
    using crisis_response_general [OF assms(2)] crisis_message_hotlines
      crisis_message_no_other_line
    by blast
qed

text \<open>An instance: an analysis with a crisis and a depression concern.\<close>

theorem crisis_response_only_crisis_lines_witness:
  "set_listing remdups \<and>
   (\<exists>resources.
      get_recommended_resources remdups
        \<lparr>detected_concerns =
           [\<lparr>dc_type = ''crisis_immediate'', dc_urgency = ''immediate'',
             dc_response_level = ''crisis''\<rparr>,
            \<lparr>dc_type = ''depression_signs'', dc_urgency = ''high'',
             dc_response_level = ''professional''\<rparr>],
         highest_urgency = ''immediate'',
         needs_immediate_help = True, needs_professional_help = True\<rparr> = Inr resources \<and>
      create_mental_health_response ''so depressed, I want to die''
        \<lparr>detected_concerns =
           [\<lparr>dc_type = ''crisis_immediate'', dc_urgency = ''immediate'',
             dc_response_level = ''crisis''\<rparr>,
            \<lparr>dc_type = ''depression_signs'', dc_urgency = ''high'',
             dc_response_level = ''professional''\<rparr>],
         highest_urgency = ''immediate'',
         needs_immediate_help = True, needs_professional_help = True\<rparr> resources =
        crisis_message)"
proof -
  let ?a = "\<lparr>detected_concerns =
           [\<lparr>dc_type = ''crisis_immediate'', dc_urgency = ''immediate'',
             dc_response_level = ''crisis''\<rparr>,
            \<lparr>dc_type = ''depression_signs'', dc_urgency = ''high'',
             dc_response_level = ''professional''\<rparr>],
         highest_urgency = ''immediate'',
         needs_immediate_help = True, needs_professional_help = True\<rparr>"
  have h1: "set_listing remdups"
    by (simp add: set_listing_def)
  have h2: "needs_immediate_help ?a"
    by simp
  from crisis_response_only_crisis_lines
    [OF h1 h2, of "''so depressed, I want to die''" "[]"]
  show ?thesis
    using h1 by blast
qed

section \<open>Agreement of the two copies of the resource guide\<close>

lemma CONCERN_PATTERNS_p0_eq: "CONCERN_PATTERNS_p0 = CONCERN_PATTERNS"
  unfolding CONCERN_PATTERNS_p0_def CONCERN_PATTERNS_def by (rule refl)

lemma MENTAL_HEALTH_RESOURCES_p0_eq: "MENTAL_HEALTH_RESOURCES_p0 = MENTAL_HEALTH_RESOURCES"
  unfolding MENTAL_HEALTH_RESOURCES_p0_def MENTAL_HEALTH_RESOURCES_def by (rule refl)

lemma update_urgency_p0_eq: "update_urgency_p0 u hu = update_urgency u hu"
  unfolding update_urgency_p0_def update_urgency_def by (rule refl)

lemma scan_patterns_p0_eq:
  "scan_patterns_p0 str_lower text ct info ps st = scan_patterns str_lower text ct info ps st"
  by (induction ps) (simp_all add: update_urgency_p0_eq)

lemma scan_concerns_p0_eq:
  "scan_concerns_p0 str_lower text table st = scan_concerns str_lower text table st"
  by (induction table arbitrary: st) (simp_all add: scan_patterns_p0_eq)

lemma analyze_mental_health_needs_p0_eq:
  "analyze_mental_health_needs_p0 str_lower text = analyze_mental_health_needs str_lower text"
  unfolding analyze_mental_health_needs_p0_def analyze_mental_health_needs_def
    analyze_with_def scan_concerns_p0_eq CONCERN_PATTERNS_p0_eq
  by (rule refl)

lemma add_concern_categories_p0_eq:
  "add_concern_categories_p0 dcs rc = add_concern_categories dcs rc"
  by (induction dcs arbitrary: rc) simp_all

lemma fill_resources_p0_eq:
  "fill_resources_p0 table cs res = fill_resources table cs res"
  by (induction cs arbitrary: res) (simp_all split: option.split)

lemma get_recommended_resources_p0_eq:
  "get_recommended_resources_p0 list_set a = get_recommended_resources list_set a"
  unfolding get_recommended_resources_p0_def get_recommended_resources_def
    resource_categories_of_p0_def resource_categories_of_def
    add_concern_categories_p0_eq fill_resources_p0_eq MENTAL_HEALTH_RESOURCES_p0_eq
  by (rule refl)

lemma bullet_line_p0_eq: "bullet_line_p0 r = bullet_line r"
  unfolding bullet_line_p0_def bullet_line_def by (rule refl)

lemma add_bullets_p0_eq: "add_bullets_p0 rs response = add_bullets rs response"
  by (induction rs arbitrary: response) (simp_all add: bullet_line_p0_eq)

lemma add_professional_p0_eq:
  "add_professional_p0 resources response = add_professional resources response"
  by (induction resources arbitrary: response) (simp_all add: add_bullets_p0_eq)

lemma add_general_p0_eq:
  "add_general_p0 resources response = add_general resources response"
  by (induction resources arbitrary: response) (simp_all add: add_bullets_p0_eq)

lemma create_mental_health_response_p0_eq:
  "create_mental_health_response_p0 user_message a resources =
     create_mental_health_response user_message a resources"
  unfolding create_mental_health_response_p0_def create_mental_health_response_def
    add_bullets_p0_eq add_professional_p0_eq add_general_p0_eq
    crisis_preface_p0_def crisis_preface_def crisis_closing_p0_def crisis_closing_def
  by (rule refl)

lemma analyze_sympathy_p0_eq:
  "analyze_sympathy_p0 sentiment text = analyze_sympathy sentiment text"
  unfolding analyze_sympathy_p0_def analyze_sympathy_def
    compute_sympathy_score_p0_def compute_sympathy_score_def
    level_of_score_p0_def level_of_score_def
  by (rule refl)

text \<open>
  Claim C10. The functions of the resource guide in \<open>src/unnamed/part_000\<close> and in
  \<open>src/main.py\<close> agree on every input: \<open>analyze_mental_health_needs\<close> on every text,
  \<open>get_recommended_resources\<close> on every analysis, \<open>create_mental_health_response\<close> on
  every analysis and bundle, \<open>analyze_sympathy\<close> on every text and sentiment primitive.
\<close>

theorem resource_guide_copies_agree:
  "analyze_mental_health_needs_p0 str_lower text = analyze_mental_health_needs str_lower text \<and>
   get_recommended_resources_p0 list_set a = get_recommended_resources list_set a \<and>
   create_mental_health_response_p0 user_message a resources =
     create_mental_health_response user_message a resources \<and>
   analyze_sympathy_p0 sentiment text = analyze_sympathy sentiment text"
  by (simp only: analyze_mental_health_needs_p0_eq get_recommended_resources_p0_eq
        create_mental_health_response_p0_eq analyze_sympathy_p0_eq simp_thms)

section \<open>Properties of the composed response\<close>

lemma base_response_type_p0: "snd (base_response_of_p0 u) \<noteq> ''greeting''"
  by (simp add: base_response_of_p0_def)

lemma get_recommended_resources_p0_total:
  assumes "set_listing list_set"
  shows "\<exists>resources. get_recommended_resources_p0 list_set a = Inr resources"
  using get_recommended_resources_total [OF assms, of a]
  unfolding get_recommended_resources_p0_eq by blast

lemma str_in_iff: "str_in sub s \<longleftrightarrow> (\<exists>a b. s = a @ sub @ b)"
proof (induction s)
  case Nil
  show ?case by auto
next
  case (Cons c cs)
  show ?case
  proof
    assume "str_in sub (c # cs)"
    then consider "prefix sub (c # cs)" | "str_in sub cs" by auto
    then show "\<exists>a b. c # cs = a @ sub @ b"
    proof cases
      case 1
      then obtain b where "c # cs = sub @ b" by (auto simp: prefix_def)
      then have "c # cs = [] @ sub @ b" by simp
      then show ?thesis by blast
    next
      case 2
      with Cons.IH obtain a b where "cs = a @ sub @ b" by blast
      then have "c # cs = (c # a) @ sub @ b" by simp
      then show ?thesis by blast
    qed
  next
    assume "\<exists>a b. c # cs = a @ sub @ b"
    then obtain a b where ab: "c # cs = a @ sub @ b" by blast
    show "str_in sub (c # cs)"
    proof (cases a)
      case Nil
      with ab have "prefix sub (c # cs)" by (simp add: prefix_def)
      then show ?thesis by simp
    next
      case (Cons x a')
      with ab have "cs = a' @ sub @ b" by simp
      with Cons.IH have "str_in sub cs" by blast
      then show ?thesis by simp
    qed
  qed
qed

lemma str_in_rev: "str_in (rev sub) (rev s) \<longleftrightarrow> str_in sub s"
proof -
  have "(\<exists>a b. rev s = a @ rev sub @ b) \<longleftrightarrow> (\<exists>a b. s = a @ sub @ b)"
  proof
    assume "\<exists>a b. rev s = a @ rev sub @ b"
    then obtain a b where "rev s = a @ rev sub @ b" by blast
    then have "rev (rev s) = rev (a @ rev sub @ b)" by simp
    then have "s = rev b @ sub @ rev a" by simp
    then show "\<exists>a b. s = a @ sub @ b" by blast
  next
    assume "\<exists>a b. s = a @ sub @ b"
    then obtain a b where "s = a @ sub @ b" by blast
    then have "rev s = rev b @ rev sub @ rev a" by simp
    then show "\<exists>a b. rev s = a @ rev sub @ b" by blast
  qed
  then show ?thesis by (simp only: str_in_iff)
qed

lemma str_in_dropWhile:
  assumes "str_in (c # sub) s" and "\<not> P c"
  shows "str_in (c # sub) (dropWhile P s)"
  using assms(1)
proof (induction s)
  case Nil
  then show ?case by simp
next
  case (Cons x xs)
  show ?case
  proof (cases "P x")
    case True
    with assms(2) have "x \<noteq> c" by blast
    with Cons.prems have "str_in (c # sub) xs" by auto
    with Cons.IH True show ?thesis by simp
  next
    case False
    with Cons.prems show ?thesis by simp
  qed
qed

lemma str_in_strip:
  assumes "str_in w s" and "w \<noteq> []" and "\<not> is_space (hd w)" and "\<not> is_space (last w)"
  shows "str_in w (strip s)"
proof -
  obtain c w' where w: "w = c # w'" using assms(2) by (cases w) auto
  obtain d v where rw: "rev w = d # v" using assms(2) by (cases "rev w") auto
  have d: "d = last w" using rw assms(2) by (metis hd_rev list.sel(1))
  have "str_in w (dropWhile is_space s)"
    using assms(1,3) unfolding w by (intro str_in_dropWhile) simp_all
  then have "str_in (rev w) (rev (dropWhile is_space s))"
    by (simp only: str_in_rev)
  then have "str_in (rev w) (dropWhile is_space (rev (dropWhile is_space s)))"
    using assms(4) unfolding rw d by (intro str_in_dropWhile) simp_all
  then have "str_in (rev (rev w)) (rev (dropWhile is_space (rev (dropWhile is_space s))))"
    by (simp only: str_in_rev)
  then show ?thesis by (simp add: strip_def)
qed

lemma occurs_as_word_str_in:
  assumes "occurs_as_word w s"
  shows "str_in w s"
proof -
  from assms obtain i where "prefix w (drop i s)"
    by (auto simp: occurs_as_word_def list_ex_iff)
  then obtain b where "drop i s = w @ b" by (auto simp: prefix_def)
  then have "take i s @ w @ b = s" by (metis append_take_drop_id)
  then have "s = take i s @ w @ b" by simp
  then show ?thesis unfolding str_in_iff by blast
qed

lemma greeting_vocabulary_trimmed:
  "list_all (\<lambda>w. w \<noteq> [] \<and> \<not> is_space (hd w) \<and> \<not> is_space (last w)) greeting_vocabulary"
  by (simp add: greeting_vocabulary_def is_space_def)

lemma greeting_word_is_substring:
  assumes "has_greeting_word str_lower user_message"
  shows "any_in greeting_vocabulary (strip (str_lower user_message))"
proof -
  from assms obtain g where g: "g \<in> set greeting_vocabulary"
    and o: "occurs_as_word g (str_lower user_message)"
    by (auto simp: has_greeting_word_def list_ex_iff)
  from g greeting_vocabulary_trimmed
  have t: "g \<noteq> []" "\<not> is_space (hd g)" "\<not> is_space (last g)"
    by (auto simp: list_all_iff)
  have "str_in g (strip (str_lower user_message))"
    using occurs_as_word_str_in [OF o] t by (rule str_in_strip)
  with g show ?thesis
    by (auto simp: any_in_def list_ex_iff)
qed

text \<open>
  Claim C2, amended. The greeting test is substring membership: for every lower-casing
  function \<open>str_lower\<close>, so for \<open>str.lower\<close>, the response of \<open>src/unnamed/part_000\<close>
  has type \<open>greeting\<close> and the fixed greeting template as its message exactly when an
  entry of the greeting vocabulary occurs as a substring of the lower-cased, stripped
  message, as it does whenever a greeting word occurs in the lower-cased message as a
  word. The message then contains no concern or resource text; the analysis and the
  resources are still computed and returned in the result.
\<close>

theorem greeting_branch:
  assumes "set_listing list_set"
  shows "\<exists>r. generate_comprehensive_response_p0 str_lower sentiment list_set user_message
                session_id = Inr r \<and>
           (any_in greeting_vocabulary (strip (str_lower user_message)) \<longrightarrow>
              response_type r = ''greeting'' \<and> message r = greeting_template) \<and>
           (response_type r = ''greeting'' \<longrightarrow>
              any_in greeting_vocabulary (strip (str_lower user_message))) \<and>
           (has_greeting_word str_lower user_message \<longrightarrow>
              response_type r = ''greeting'' \<and> message r = greeting_template) \<and>
           mental_health_analysis r = analyze_mental_health_needs_p0 str_lower user_message \<and>
           get_recommended_resources_p0 list_set (mental_health_analysis r) =
             Inr (resources_provided r)"
proof -
  obtain resources where
    "get_recommended_resources_p0 list_set
       (analyze_mental_health_needs_p0 str_lower user_message) = Inr resources"
    using get_recommended_resources_p0_total [OF assms] by blast
  then show ?thesis
    using greeting_word_is_substring [of str_lower user_message]
    by (auto simp add: generate_comprehensive_response_p0_def Let_def base_response_type_p0)
qed

text \<open>An instance: the ASCII message \<open>Hello\<close>.\<close>

theorem greeting_branch_witness:
  "set_listing remdups \<and>
   any_in greeting_vocabulary (strip (ascii_lower ''Hello'')) \<and>
   (\<exists>r. generate_comprehensive_response_p0 ascii_lower neutral_sentiment remdups ''Hello''
          ''s1'' = Inr r \<and>
        response_type r = ''greeting'' \<and> message r = greeting_template)"
proof -
  have h: "set_listing remdups"
    by (simp add: set_listing_def)
  have g: "any_in greeting_vocabulary (strip (ascii_lower ''Hello''))"
    by code_simp
  from greeting_branch [OF h, of ascii_lower neutral_sentiment "''Hello''" "''s1''"]
  show ?thesis
    using h g by blast
qed

text \<open>
  Claim C2 as stated fails: the ASCII message \<open>this is hard\<close>, which \<open>str.lower\<close>
  leaves as it is, contains no greeting word as a word, and takes the greeting branch,
  because \<open>hi\<close> occurs inside \<open>this\<close>.
\<close>

theorem greeting_without_greeting_word:
  "ascii_lower ''this is hard'' = ''this is hard'' \<and>
   \<not> has_greeting_word ascii_lower ''this is hard'' \<and>
   response_type_of
     (generate_comprehensive_response_p0 ascii_lower neutral_sentiment remdups
        ''this is hard'' ''s1'') =
     Some ''greeting''"
  by code_simp

lemma no_pattern_matches_empty:
  "list_all (\<lambda>item. \<not> list_ex (\<lambda>p. re_search p []) (ci_patterns (snd item)))
     CONCERN_PATTERNS"
  by code_simp

lemma matched_empty:
  assumes "str_lower [] = []"
  shows "matched str_lower CONCERN_PATTERNS [] = []"
  using no_pattern_matches_empty
  by (simp add: matched_def category_matches_def assms filter_empty_conv list_all_iff)

lemma analyze_empty:
  assumes "str_lower [] = []"
  shows "analyze_mental_health_needs str_lower [] = no_concerns"
  by (simp add: analyze_mental_health_needs_def analyze_with_def Let_def scan_concerns_eq
        matched_empty [of str_lower, OF assms] no_concerns_def)

lemma set_listing_Nil:
  assumes "set_listing list_set"
  shows "list_set [] = []"
proof -
  from assms have "set (list_set []) = set []"
    unfolding set_listing_def by blast
  then show ?thesis by simp
qed

lemma resources_no_concerns:
  assumes "set_listing list_set"
  shows "get_recommended_resources list_set no_concerns = Inr []"
  by (simp add: get_recommended_resources_def resource_categories_of_def no_concerns_def
        set_listing_Nil [OF assms])

lemma strip_empty: "strip [] = []"
  by (simp add: strip_def)

lemma empty_not_greeting:
  "\<not> any_in greeting_vocabulary [] \<and> \<not> any_in happy_vocabulary []"
  by code_simp

lemma empty_base_response:
  "snd (base_response_of_p0 []) = ''general_support'' \<and>
   snd (base_response_of []) = ''general_support''"
  by code_simp

lemma neutral_sympathy_low:
  "sympathy_level (analyze_sympathy neutral_sentiment []) = ''low''"
  by code_simp

text \<open>
  Claim C8. On the empty string, which \<open>str.lower\<close> leaves empty, with the neutral
  sentiment nothing is raised: the analysis has no detected concern and urgency \<open>low\<close>,
  and \<open>generate_comprehensive_response\<close>, in both source files, returns a response of
  type \<open>general_support\<close> with sympathy level \<open>low\<close>.
\<close>

theorem empty_input_general_support:
  assumes "str_lower [] = []" and "set_listing list_set"
  shows "analyze_mental_health_needs str_lower [] = no_concerns \<and>
         (\<exists>r. generate_comprehensive_response_p0 str_lower neutral_sentiment list_set []
                 session_id = Inr r \<and>
               response_type r = ''general_support'' \<and>
               sympathy_level (sympathy_analysis r) = ''low'') \<and>
         (\<exists>r. generate_comprehensive_response str_lower neutral_sentiment list_set []
                 session_id = Inr r \<and>
               response_type r = ''general_support'' \<and>
               sympathy_level (sympathy_analysis r) = ''low'')"
proof -
  note a = analyze_empty [of str_lower, OF assms(1)]
  have p0: "\<exists>r. generate_comprehensive_response_p0 str_lower neutral_sentiment list_set []
                 session_id = Inr r \<and>
               response_type r = ''general_support'' \<and>
               sympathy_level (sympathy_analysis r) = ''low''"
    by (simp add: generate_comprehensive_response_p0_def Let_def
          analyze_mental_health_needs_p0_eq get_recommended_resources_p0_eq
          analyze_sympathy_p0_eq a resources_no_concerns [OF assms(2)] assms(1)
          strip_empty empty_not_greeting empty_base_response neutral_sympathy_low)
  have main: "\<exists>r. generate_comprehensive_response str_lower neutral_sentiment list_set []
                 session_id = Inr r \<and>
               response_type r = ''general_support'' \<and>
               sympathy_level (sympathy_analysis r) = ''low''"
    by (simp add: generate_comprehensive_response_def Let_def
          a resources_no_concerns [OF assms(2)] assms(1)
          empty_base_response neutral_sympathy_low)
  from a p0 main show ?thesis
    by blast
qed

text \<open>An instance: \<open>ascii_lower\<close> and the set listed by \<open>remdups\<close>.\<close>

theorem empty_input_general_support_witness:
  "ascii_lower [] = [] \<and> set_listing remdups \<and>
   detected_concerns (analyze_mental_health_needs ascii_lower []) = [] \<and>
   highest_urgency (analyze_mental_health_needs ascii_lower []) = ''low'' \<and>
   response_type_of
     (generate_comprehensive_response_p0 ascii_lower neutral_sentiment remdups [] ''s1'') =
     Some ''general_support''"
proof -
  have l: "ascii_lower [] = []"
    by (simp add: ascii_lower_def)
  have h: "set_listing remdups"
    by (simp add: set_listing_def)
  from empty_input_general_support [of ascii_lower remdups "''s1''", OF l h]
  show ?thesis
    using l h by (auto simp add: no_concerns_def response_type_of_def)
qed

section \<open>Rounding to the nearest float\<close>

lemma round_half_even_cases:
  "round_half_even x = \<lfloor>x\<rfloor> \<or> round_half_even x = \<lfloor>x\<rfloor> + 1 \<and> 1 / 2 \<le> x - of_int \<lfloor>x\<rfloor>"
  by (auto simp add: round_half_even_def Let_def)

lemma round_half_even_ge:
  assumes "of_int n \<le> x"
  shows "n \<le> round_half_even x"
proof -
  from assms have "n \<le> \<lfloor>x\<rfloor>" by (simp add: le_floor_iff)
  then show ?thesis using round_half_even_cases [of x] by linarith
qed

lemma round_half_even_le:
  assumes "x \<le> of_int n"
  shows "round_half_even x \<le> n"
proof -
  from round_half_even_cases [of x] show ?thesis
  proof
    assume "round_half_even x = \<lfloor>x\<rfloor>"
    moreover have "\<lfloor>x\<rfloor> \<le> n" using assms by (simp add: floor_le_iff)
    ultimately show ?thesis by simp
  next
    assume a: "round_half_even x = \<lfloor>x\<rfloor> + 1 \<and> 1 / 2 \<le> x - of_int \<lfloor>x\<rfloor>"
    then have "of_int \<lfloor>x\<rfloor> < x" by linarith
    with assms have "(of_int \<lfloor>x\<rfloor> :: rat) < of_int n" by linarith
    then have "\<lfloor>x\<rfloor> < n" by simp
    with a show ?thesis by linarith
  qed
qed

lemma round_half_even_mono:
  assumes "x \<le> y"
  shows "round_half_even x \<le> round_half_even y"
proof (cases "\<lfloor>x\<rfloor> = \<lfloor>y\<rfloor>")
  case True
  with assms have "x - of_int \<lfloor>x\<rfloor> \<le> y - of_int \<lfloor>y\<rfloor>" by simp
  with True show ?thesis
    by (auto simp add: round_half_even_def Let_def)
next
  case False
  with assms have "\<lfloor>x\<rfloor> < \<lfloor>y\<rfloor>"
    using floor_mono [OF assms] by linarith
  then have "round_half_even x \<le> \<lfloor>y\<rfloor>"
    using round_half_even_cases [of x] by linarith
  also have "\<lfloor>y\<rfloor> \<le> round_half_even y"
    using round_half_even_cases [of y] by linarith
  finally show ?thesis .
qed


lemma two_powi_pos: "0 < (2::rat) powi e"
  by simp

lemma two_powi_add: "(2::rat) powi (a + b) = 2 powi a * 2 powi b"
  by (simp add: power_int_add)

lemma two_powi_mono: "a \<le> b \<Longrightarrow> (2::rat) powi a \<le> 2 powi b"
  by (rule power_int_increasing) simp_all

lemma two_powi_less_imp: "(2::rat) powi a < 2 powi b \<Longrightarrow> a < b"
proof (rule ccontr)
  assume "(2::rat) powi a < 2 powi b" and "\<not> a < b"
  then have "(2::rat) powi b \<le> 2 powi a" by (intro two_powi_mono) simp
  with \<open>(2::rat) powi a < 2 powi b\<close> show False by simp
qed

lemma bitlen_rat_bounds:
  assumes "0 < a"
  shows "(2::rat) powi (bitlen a - 1) \<le> of_int a \<and> of_int a < (2::rat) powi bitlen a"
proof -
  from bitlen_bounds [OF assms]
  have lo: "2 ^ nat (bitlen a - 1) \<le> a" and hi: "a < 2 ^ nat (bitlen a)"
    by simp_all
  have pos: "1 \<le> bitlen a"
    using assms bitlen_eq_zero_iff [of a] bitlen_nonneg [of a] by linarith
  have "(2::rat) powi (bitlen a - 1) = 2 ^ nat (bitlen a - 1)"
    using pos by (simp add: power_int_def)
  also have "\<dots> = of_int (2 ^ nat (bitlen a - 1))" by simp
  also have "\<dots> \<le> of_int a" using lo by (simp only: of_int_le_iff)
  finally have l: "(2::rat) powi (bitlen a - 1) \<le> of_int a" .
  have "(of_int a :: rat) < of_int (2 ^ nat (bitlen a))"
    using hi by (simp only: of_int_less_iff)
  also have "\<dots> = 2 ^ nat (bitlen a)" by simp
  also have "\<dots> = (2::rat) powi bitlen a"
    using pos by (simp add: power_int_def)
  finally show ?thesis using l by simp
qed

lemma expo_bounds:
  assumes "0 < x"
  shows "2 powi expo x \<le> x \<and> x < 2 powi (expo x + 1)"
proof -
  obtain a b where q: "quotient_of x = (a, b)" by (cases "quotient_of x")
  then have b: "0 < b" by (rule quotient_of_denom_pos)
  have x: "x = of_int a / of_int b" using q by (rule quotient_of_div)
  have a: "0 < a"
    using assms b unfolding x by (simp add: zero_less_divide_iff)
  let ?e = "bitlen a - bitlen b"
  note A = bitlen_rat_bounds [OF a] and B = bitlen_rat_bounds [OF b]
  have bpos: "(0::rat) < of_int b" using b by simp
  have up: "x < 2 powi (?e + 1)"
  proof -
    have "of_int a < (2::rat) powi bitlen a" using A by simp
    also have "\<dots> = 2 powi (?e + 1) * 2 powi (bitlen b - 1)"
      by (simp flip: two_powi_add)
    also have "\<dots> \<le> 2 powi (?e + 1) * of_int b"
      using B by (intro mult_left_mono) simp_all
    finally show ?thesis
      unfolding x using bpos by (simp add: pos_divide_less_eq)
  qed
  have low: "2 powi (?e - 1) \<le> x"
  proof -
    have "2 powi (?e - 1) * (of_int b :: rat) \<le> 2 powi (?e - 1) * 2 powi bitlen b"
      using B by (intro mult_left_mono) simp_all
    also have "\<dots> = 2 powi (bitlen a - 1)"
      by (simp flip: two_powi_add)
    also have "\<dots> \<le> of_int a" using A by simp
    finally show ?thesis
      unfolding x using bpos by (simp add: pos_le_divide_eq)
  qed
  show ?thesis
  proof (cases "2 powi ?e \<le> x")
    case True
    then have "expo x = ?e" by (simp add: expo_def q)
    with True up show ?thesis by simp
  next
    case False
    then have "expo x = ?e - 1" by (simp add: expo_def q)
    with False low show ?thesis by simp
  qed
qed

lemma expo_unique:
  assumes "2 powi e \<le> x" and "x < 2 powi (e + 1)"
  shows "expo x = e"
proof -
  have "0 < x" using assms(1) two_powi_pos [of e] by linarith
  note E = expo_bounds [OF this]
  have "(2::rat) powi expo x < 2 powi (e + 1)" using E assms(2) by linarith
  then have 1: "expo x < e + 1" by (rule two_powi_less_imp)
  have "(2::rat) powi e < 2 powi (expo x + 1)" using E assms(1) by linarith
  then have 2: "e < expo x + 1" by (rule two_powi_less_imp)
  from 1 2 show ?thesis by linarith
qed

lemma expo_mono:
  assumes "0 < x" and "x \<le> y"
  shows "expo x \<le> expo y"
proof -
  have "0 < y" using assms by linarith
  note X = expo_bounds [OF assms(1)] and Y = expo_bounds [OF this]
  have "(2::rat) powi expo x < 2 powi (expo y + 1)" using X Y assms(2) by linarith
  then have "expo x < expo y + 1" by (rule two_powi_less_imp)
  then show ?thesis by simp
qed


lemma rnd64_pos:
  assumes "0 < x"
  shows "rnd64 x = of_int (round_half_even (x / 2 powi ulp_exp x)) * 2 powi ulp_exp x"
  using assms by (simp add: rnd64_def)

lemma ulp_exp_pos:
  assumes "0 < x"
  shows "ulp_exp x = max (expo x) (- 1022) - 52"
  using assms by (simp add: ulp_exp_def)

lemma two_powi_split:
  assumes "u \<le> k"
  shows "(2::rat) powi k = of_int (2 ^ nat (k - u)) * 2 powi u"
proof -
  have "(2::rat) powi k = 2 powi (k - u) * 2 powi u"
    by (simp flip: two_powi_add)
  also have "(2::rat) powi (k - u) = of_int (2 ^ nat (k - u))"
    using assms by (simp add: power_int_def)
  finally show ?thesis .
qed

lemma rnd64_le_pow:
  assumes "0 < x" and "x \<le> 2 powi k" and "ulp_exp x \<le> k"
  shows "rnd64 x \<le> 2 powi k"
proof -
  let ?u = "ulp_exp x"
  note k = two_powi_split [OF assms(3)]
  have "x / 2 powi ?u \<le> of_int (2 ^ nat (k - ?u))"
    using assms(2) unfolding k by (simp add: pos_divide_le_eq)
  then have "round_half_even (x / 2 powi ?u) \<le> 2 ^ nat (k - ?u)"
    by (rule round_half_even_le)
  then have "(of_int (round_half_even (x / 2 powi ?u)) :: rat) \<le> of_int (2 ^ nat (k - ?u))"
    by (simp only: of_int_le_iff)
  then have "of_int (round_half_even (x / 2 powi ?u)) * 2 powi ?u \<le>
      of_int (2 ^ nat (k - ?u)) * (2::rat) powi ?u"
    by (rule mult_right_mono) simp
  then show ?thesis
    unfolding rnd64_pos [OF assms(1)] k [symmetric] .
qed

lemma rnd64_ge_pow:
  assumes "0 < x" and "2 powi k \<le> x" and "ulp_exp x \<le> k"
  shows "2 powi k \<le> rnd64 x"
proof -
  let ?u = "ulp_exp x"
  note k = two_powi_split [OF assms(3)]
  have "of_int (2 ^ nat (k - ?u)) \<le> x / 2 powi ?u"
    using assms(2) unfolding k by (simp add: pos_le_divide_eq)
  then have "2 ^ nat (k - ?u) \<le> round_half_even (x / 2 powi ?u)"
    by (rule round_half_even_ge)
  then have "(of_int (2 ^ nat (k - ?u)) :: rat) \<le> of_int (round_half_even (x / 2 powi ?u))"
    by (simp only: of_int_le_iff)
  then have "of_int (2 ^ nat (k - ?u)) * (2::rat) powi ?u \<le>
      of_int (round_half_even (x / 2 powi ?u)) * 2 powi ?u"
    by (rule mult_right_mono) simp
  then show ?thesis
    unfolding rnd64_pos [OF assms(1)] k [symmetric] .
qed

lemma rnd64_nonneg:
  assumes "0 \<le> x"
  shows "0 \<le> rnd64 x"
proof (cases "x = 0")
  case True
  then show ?thesis by (simp add: rnd64_def)
next
  case False
  with assms have x: "0 < x" by simp
  have "(of_int 0 :: rat) \<le> x / 2 powi ulp_exp x"
    using x by simp
  then have "0 \<le> round_half_even (x / 2 powi ulp_exp x)"
    by (rule round_half_even_ge)
  then show ?thesis
    unfolding rnd64_pos [OF x] by simp
qed

lemma rnd64_mono:
  assumes "0 \<le> x" and "x \<le> y"
  shows "rnd64 x \<le> rnd64 y"
proof (cases "x = 0")
  case True
  have "0 \<le> rnd64 y" using assms by (intro rnd64_nonneg) simp
  with True show ?thesis by (simp add: rnd64_def)
next
  case False
  with assms have x: "0 < x" by simp
  with assms have y: "0 < y" by simp
  let ?ex = "max (expo x) (- 1022)" and ?ey = "max (expo y) (- 1022)"
  have le: "?ex \<le> ?ey"
    using expo_mono [OF x assms(2)] by simp
  show ?thesis
  proof (cases "?ex = ?ey")
    case True
    then have u: "ulp_exp y = ulp_exp x"
      by (simp only: ulp_exp_pos [OF x] ulp_exp_pos [OF y])
    have "x / 2 powi ulp_exp x \<le> y / 2 powi ulp_exp x"
      using assms(2) by (intro divide_right_mono) simp_all
    then have "round_half_even (x / 2 powi ulp_exp x) \<le>
        round_half_even (y / 2 powi ulp_exp x)"
      by (rule round_half_even_mono)
    then have "(of_int (round_half_even (x / 2 powi ulp_exp x)) :: rat) \<le>
        of_int (round_half_even (y / 2 powi ulp_exp x))"
      by (simp only: of_int_le_iff)
    then have "of_int (round_half_even (x / 2 powi ulp_exp x)) * (2::rat) powi ulp_exp x \<le>
        of_int (round_half_even (y / 2 powi ulp_exp x)) * 2 powi ulp_exp x"
      by (rule mult_right_mono) simp
    then show ?thesis
      unfolding rnd64_pos [OF x] rnd64_pos [OF y] u .
  next
    case False
    from False le have lt: "?ex < ?ey"
      by (rule order.not_eq_order_implies_strict)
    then have ey: "?ey = expo y" by linarith
    have "x < 2 powi (expo x + 1)"
      using expo_bounds [OF x] by simp
    also have "\<dots> \<le> 2 powi (?ex + 1)"
      by (rule two_powi_mono) simp
    finally have xle: "x \<le> 2 powi (?ex + 1)" by simp
    have "ulp_exp x \<le> ?ex + 1"
      by (simp add: ulp_exp_pos [OF x])
    with x xle have "rnd64 x \<le> 2 powi (?ex + 1)"
      by (rule rnd64_le_pow)
    also have "(2::rat) powi (?ex + 1) \<le> 2 powi ?ey"
      by (rule two_powi_mono) (rule zless_imp_add1_zle [OF lt])
    also have "(2::rat) powi ?ey \<le> rnd64 y"
    proof (rule rnd64_ge_pow [OF y])
      show "2 powi ?ey \<le> y"
        unfolding ey using expo_bounds [OF y] by simp
      show "ulp_exp y \<le> ?ey"
        by (simp add: ulp_exp_pos [OF y])
    qed
    finally show ?thesis .
  qed
qed

lemma rnd64_values:
  "rnd64 0 = 0" "rnd64 1 = 1"
  "rnd64 (66 / 100) = 5944751508129055 / 2 ^ 53"
  "rnd64 (33 / 100) = 5944751508129055 / 2 ^ 54"
  by code_simp+


lemma rnd64_binade:
  assumes "2 powi e \<le> z" and "z < 2 powi (e + 1)" and "- 1022 \<le> e"
  shows "rnd64 z = of_int (round_half_even (z / 2 powi (e - 52))) * 2 powi (e - 52)"
proof -
  have z: "0 < z" using assms(1) two_powi_pos [of e] by linarith
  have "expo z = e" using assms(1,2) by (rule expo_unique)
  then have "ulp_exp z = e - 52"
    using assms(3) by (simp add: ulp_exp_pos [OF z])
  then show ?thesis
    by (simp only: rnd64_pos [OF z])
qed

lemma float_threshold:
  assumes e: "- 1022 \<le> e"
    and d: "2 powi e < d" "d < 2 powi (e + 1)"
    and K: "rnd64 d = of_int K * 2 powi (e - 52)"
    and gap: "of_int (K - 1) * 2 powi (e - 52) < d"
    and z: "0 \<le> z"
    and dz: "d \<le> rnd64 z"
  shows "rnd64 d \<le> rnd64 z"
proof (cases "d \<le> z")
  case True
  have "0 \<le> d" using d(1) two_powi_pos [of e] by linarith
  then show ?thesis using True by (rule rnd64_mono)
next
  case False
  then have zd: "z < d" by simp
  have d0: "0 < d" using d(1) two_powi_pos [of e] by linarith
  have z0: "0 < z"
  proof (rule ccontr)
    assume "\<not> 0 < z"
    with z have "z = 0" by simp
    then have "rnd64 z = 0" by (simp add: rnd64_def)
    with dz d0 show False by simp
  qed
  have inside: "2 powi e \<le> z"
  proof (rule ccontr)
    assume "\<not> 2 powi e \<le> z"
    then have lt: "z < 2 powi e" by simp
    then have "(2::rat) powi expo z < 2 powi e"
      using expo_bounds [OF z0] by linarith
    then have "expo z < e" by (rule two_powi_less_imp)
    then have "ulp_exp z \<le> e"
      using e by (simp add: ulp_exp_pos [OF z0])
    with z0 lt have "rnd64 z \<le> 2 powi e"
      by (intro rnd64_le_pow) simp_all
    with dz d(1) show False by linarith
  qed
  let ?u = "(2::rat) powi (e - 52)"
  let ?k = "round_half_even (z / ?u)"
  have zr: "rnd64 z = of_int ?k * ?u"
    using inside zd d(2) e by (intro rnd64_binade) simp_all
  have "of_int (K - 1) * ?u < of_int ?k * ?u"
    using gap dz unfolding zr by linarith
  then have "(of_int (K - 1) :: rat) < of_int ?k"
    by (simp add: mult_less_cancel_right)
  then have "K - 1 < ?k" by (simp only: of_int_less_iff)
  then have "K \<le> ?k" by simp
  then have "(of_int K :: rat) \<le> of_int ?k" by (simp only: of_int_le_iff)
  then have "of_int K * ?u \<le> of_int ?k * ?u"
    by (rule mult_right_mono) simp
  then show ?thesis unfolding K zr .
qed

lemma threshold_66:
  assumes "0 \<le> z"
  shows "rnd64 (66 / 100) \<le> rnd64 z \<longleftrightarrow> 66 / 100 \<le> rnd64 z"
proof
  have "(66 / 100 :: rat) \<le> rnd64 (66 / 100)"
    unfolding rnd64_values by simp
  then show "rnd64 (66 / 100) \<le> rnd64 z \<Longrightarrow> 66 / 100 \<le> rnd64 z"
    by linarith
next
  assume a: "66 / 100 \<le> rnd64 z"
  have K: "rnd64 (66 / 100) = of_int 5944751508129055 * 2 powi (- 1 - 52)"
    unfolding rnd64_values by simp
  show "rnd64 (66 / 100) \<le> rnd64 z"
  proof (rule float_threshold [where e = "- 1" and K = 5944751508129055, OF _ _ _ K _ assms a])
    show "- 1022 \<le> (- 1 :: int)" by simp
    show "(2::rat) powi - 1 < 66 / 100" by simp
    show "(66 / 100 :: rat) < 2 powi (- 1 + 1)" by simp
    show "of_int (5944751508129055 - 1) * 2 powi (- 1 - 52) < (66 / 100 :: rat)" by simp
  qed
qed

lemma threshold_33:
  assumes "0 \<le> z"
  shows "rnd64 (33 / 100) \<le> rnd64 z \<longleftrightarrow> 33 / 100 \<le> rnd64 z"
proof
  have "(33 / 100 :: rat) \<le> rnd64 (33 / 100)"
    unfolding rnd64_values by simp
  then show "rnd64 (33 / 100) \<le> rnd64 z \<Longrightarrow> 33 / 100 \<le> rnd64 z"
    by linarith
next
  assume a: "33 / 100 \<le> rnd64 z"
  have K: "rnd64 (33 / 100) = of_int 5944751508129055 * 2 powi (- 2 - 52)"
    unfolding rnd64_values by simp
  show "rnd64 (33 / 100) \<le> rnd64 z"
  proof (rule float_threshold [where e = "- 2" and K = 5944751508129055, OF _ _ _ K _ assms a])
    show "- 1022 \<le> (- 2 :: int)" by simp
    show "(2::rat) powi - 2 < 33 / 100" by simp
    show "(33 / 100 :: rat) < 2 powi (- 2 + 1)" by simp
    show "of_int (5944751508129055 - 1) * 2 powi (- 2 - 52) < (33 / 100 :: rat)" by simp
  qed
qed

section \<open>Properties of the sympathy score\<close>

lemma py_round3_mono:
  assumes "0 \<le> x" and "x \<le> y"
  shows "py_round3 x \<le> py_round3 y"
proof -
  have "(of_int 0 :: rat) \<le> x * 1000" using assms(1) by simp
  then have "0 \<le> round_half_even (x * 1000)" by (rule round_half_even_ge)
  then have nn: "(0::rat) \<le> of_int (round_half_even (x * 1000)) / 1000" by simp
  have "x * 1000 \<le> y * 1000" using assms(2) by simp
  then have "round_half_even (x * 1000) \<le> round_half_even (y * 1000)"
    by (rule round_half_even_mono)
  then have "(of_int (round_half_even (x * 1000)) :: rat) / 1000 \<le>
      of_int (round_half_even (y * 1000)) / 1000"
    by simp
  with nn show ?thesis unfolding py_round3_def by (rule rnd64_mono)
qed

lemma py_round3_values: "py_round3 0 = 0" "py_round3 1 = 1"
  by code_simp+

lemma score_form:
  "compute_sympathy_score pol subj =
     min 1 (rnd64 (rnd64 (max 0 (- pol) * rnd64 (1 + subj)) / (3 / 2)))"
  by (simp add: compute_sympathy_score_def Let_def fmul_def fadd_def fdiv_def)

lemma raw_nonneg:
  assumes "- 1 \<le> subj"
  shows "0 \<le> rnd64 (max 0 (- pol) * rnd64 (1 + subj)) / (3 / 2)"
proof -
  have "0 \<le> rnd64 (1 + subj)" using assms by (intro rnd64_nonneg) simp
  then have "0 \<le> max 0 (- pol) * rnd64 (1 + subj)" by simp
  then have "0 \<le> rnd64 (max 0 (- pol) * rnd64 (1 + subj))" by (rule rnd64_nonneg)
  then show ?thesis by simp
qed

lemma score_range:
  assumes "- 1 \<le> subj"
  shows "0 \<le> compute_sympathy_score pol subj \<and> compute_sympathy_score pol subj \<le> 1"
proof -
  have "0 \<le> rnd64 (rnd64 (max 0 (- pol) * rnd64 (1 + subj)) / (3 / 2))"
    using raw_nonneg [OF assms] by (rule rnd64_nonneg)
  then show ?thesis unfolding score_form by simp
qed

lemma score_mono_polarity:
  assumes "- 1 \<le> subj" and "pol' \<le> pol"
  shows "compute_sympathy_score pol subj \<le> compute_sympathy_score pol' subj"
proof -
  have t: "0 \<le> rnd64 (1 + subj)" using assms(1) by (intro rnd64_nonneg) simp
  have "max 0 (- pol) \<le> max 0 (- pol')" using assms(2) by simp
  then have le: "max 0 (- pol) * rnd64 (1 + subj) \<le> max 0 (- pol') * rnd64 (1 + subj)"
    using t by (rule mult_right_mono)
  have "0 \<le> max 0 (- pol) * rnd64 (1 + subj)" using t by simp
  then have "rnd64 (max 0 (- pol) * rnd64 (1 + subj)) \<le>
      rnd64 (max 0 (- pol') * rnd64 (1 + subj))"
    using le by (rule rnd64_mono)
  then have "rnd64 (max 0 (- pol) * rnd64 (1 + subj)) / (3 / 2) \<le>
      rnd64 (max 0 (- pol') * rnd64 (1 + subj)) / (3 / 2)"
    by simp
  with raw_nonneg [OF assms(1)]
  have "rnd64 (rnd64 (max 0 (- pol) * rnd64 (1 + subj)) / (3 / 2)) \<le>
      rnd64 (rnd64 (max 0 (- pol') * rnd64 (1 + subj)) / (3 / 2))"
    by (rule rnd64_mono)
  then show ?thesis unfolding score_form by simp
qed

lemma score_mono_subjectivity:
  assumes "- 1 \<le> subj" and "subj \<le> subj'"
  shows "compute_sympathy_score pol subj \<le> compute_sympathy_score pol subj'"
proof -
  have "0 \<le> 1 + subj" using assms(1) by simp
  moreover have "1 + subj \<le> 1 + subj'" using assms(2) by simp
  ultimately have tt: "rnd64 (1 + subj) \<le> rnd64 (1 + subj')" by (rule rnd64_mono)
  have t: "0 \<le> rnd64 (1 + subj)" using assms(1) by (intro rnd64_nonneg) simp
  have le: "max 0 (- pol) * rnd64 (1 + subj) \<le> max 0 (- pol) * rnd64 (1 + subj')"
    using tt by (rule mult_left_mono) simp
  have "0 \<le> max 0 (- pol) * rnd64 (1 + subj)" using t by simp
  then have "rnd64 (max 0 (- pol) * rnd64 (1 + subj)) \<le>
      rnd64 (max 0 (- pol) * rnd64 (1 + subj'))"
    using le by (rule rnd64_mono)
  then have "rnd64 (max 0 (- pol) * rnd64 (1 + subj)) / (3 / 2) \<le>
      rnd64 (max 0 (- pol) * rnd64 (1 + subj')) / (3 / 2)"
    by simp
  with raw_nonneg [OF assms(1)]
  have "rnd64 (rnd64 (max 0 (- pol) * rnd64 (1 + subj)) / (3 / 2)) \<le>
      rnd64 (rnd64 (max 0 (- pol) * rnd64 (1 + subj')) / (3 / 2))"
    by (rule rnd64_mono)
  then show ?thesis unfolding score_form by simp
qed

lemma level_of_computed_score:
  assumes "- 1 \<le> subj"
  shows "level_of_score (compute_sympathy_score pol subj) =
     (if 66 / 100 \<le> compute_sympathy_score pol subj then ''high''
      else if 33 / 100 \<le> compute_sympathy_score pol subj then ''moderate''
      else ''low'')"
proof -
  let ?z = "rnd64 (max 0 (- pol) * rnd64 (1 + subj)) / (3 / 2)"
  note z = raw_nonneg [OF assms, of pol]
  have c66: "rnd64 (66 / 100) \<le> 1" and c33: "rnd64 (33 / 100) \<le> 1"
    unfolding rnd64_values by simp_all
  have h: "rnd64 (66 / 100) \<le> min 1 (rnd64 ?z) \<longleftrightarrow> 66 / 100 \<le> min 1 (rnd64 ?z)"
    using threshold_66 [OF z] c66 by (simp add: min_def)
  have m: "rnd64 (33 / 100) \<le> min 1 (rnd64 ?z) \<longleftrightarrow> 33 / 100 \<le> min 1 (rnd64 ?z)"
    using threshold_33 [OF z] c33 by (simp add: min_def)
  show ?thesis
    unfolding level_of_score_def score_form h m by (rule refl)
qed

lemma score_example:
  "compute_sympathy_score (- 1 / 2) (rnd64 (8 / 10)) = rnd64 (6 / 10) \<and>
   py_round3 (rnd64 (6 / 10)) = rnd64 (6 / 10) \<and>
   level_of_score (rnd64 (6 / 10)) = ''moderate''"
  by code_simp

lemma reported_score_range:
  assumes "- 1 \<le> subj"
  shows "0 \<le> py_round3 (compute_sympathy_score pol subj) \<and>
         py_round3 (compute_sympathy_score pol subj) \<le> 1"
proof -
  note r = score_range [OF assms, of pol]
  have "py_round3 0 \<le> py_round3 (compute_sympathy_score pol subj)"
    using r by (intro py_round3_mono) simp_all
  moreover have "py_round3 (compute_sympathy_score pol subj) \<le> py_round3 1"
    using r by (intro py_round3_mono) simp_all
  ultimately show ?thesis
    by (simp add: py_round3_values)
qed

lemma analyze_sympathy_fields:
  "sympathy_score (analyze_sympathy sentiment text) =
     py_round3 (compute_sympathy_score (polarity (analyze_sympathy sentiment text))
       (subjectivity (analyze_sympathy sentiment text))) \<and>
   sympathy_level (analyze_sympathy sentiment text) =
     level_of_score (compute_sympathy_score (polarity (analyze_sympathy sentiment text))
       (subjectivity (analyze_sympathy sentiment text)))"
  by (simp add: analyze_sympathy_def Let_def)

text \<open>
  Claim C6. For polarity in \<open>[-1, 1]\<close> and subjectivity in \<open>[0, 1]\<close> the score
  \<open>min(1.0, max(0.0, -polarity) * (1.0 + subjectivity) / 1.5)\<close>, computed in binary64
  arithmetic, lies in \<open>[0, 1]\<close>, does not decrease when the polarity decreases or when the
  subjectivity increases, and is mapped to \<open>high\<close> from 0.66 on, to \<open>moderate\<close> from
  0.33 on and to \<open>low\<close> below; the score reported after \<open>round(score, 3)\<close> lies in
  \<open>[0, 1]\<close> too. Polarity \<open>-0.5\<close> and subjectivity \<open>0.8\<close> give the float \<open>0.6\<close>,
  reported as \<open>0.6\<close>, and the level \<open>moderate\<close>. \<open>analyze_sympathy\<close> reports this score
  and this level for the rounded polarity and subjectivity.
\<close>

theorem sympathy_score_properties:
  assumes "- 1 \<le> pol" and "pol \<le> 1" and "0 \<le> subj" and "subj \<le> 1"
  shows "0 \<le> compute_sympathy_score pol subj \<and>
         compute_sympathy_score pol subj \<le> 1 \<and>
         0 \<le> py_round3 (compute_sympathy_score pol subj) \<and>
         py_round3 (compute_sympathy_score pol subj) \<le> 1 \<and>
         sympathy_score (analyze_sympathy sentiment text) =
           py_round3 (compute_sympathy_score (polarity (analyze_sympathy sentiment text))
             (subjectivity (analyze_sympathy sentiment text))) \<and>
         sympathy_level (analyze_sympathy sentiment text) =
           level_of_score (compute_sympathy_score (polarity (analyze_sympathy sentiment text))
             (subjectivity (analyze_sympathy sentiment text))) \<and>
         (\<forall>pol'. - 1 \<le> pol' \<and> pol' \<le> pol \<longrightarrow>
            compute_sympathy_score pol subj \<le> compute_sympathy_score pol' subj) \<and>
         (\<forall>subj'. subj \<le> subj' \<and> subj' \<le> 1 \<longrightarrow>
            compute_sympathy_score pol subj \<le> compute_sympathy_score pol subj') \<and>
         level_of_score (compute_sympathy_score pol subj) =
           (if 66 / 100 \<le> compute_sympathy_score pol subj then ''high''
            else if 33 / 100 \<le> compute_sympathy_score pol subj then ''moderate''
            else ''low'') \<and>
         compute_sympathy_score (- 1 / 2) (rnd64 (8 / 10)) = rnd64 (6 / 10) \<and>
         py_round3 (rnd64 (6 / 10)) = rnd64 (6 / 10) \<and>
         level_of_score (rnd64 (6 / 10)) = ''moderate''"
proof -
  have s: "- 1 \<le> subj" using assms(3) by simp
  show ?thesis
    using score_range [OF s, of pol] score_mono_polarity [OF s, of _ pol]
      score_mono_subjectivity [OF s, of _ pol] level_of_computed_score [OF s, of pol]
      score_example reported_score_range [OF s, of pol]
      analyze_sympathy_fields [of sentiment "text"]
    by blast
qed

text \<open>An instance: polarity \<open>-1/2\<close> and subjectivity \<open>1/2\<close>.\<close>

theorem sympathy_score_properties_witness:
  "- 1 \<le> (- 1 / 2 :: rat) \<and> (- 1 / 2 :: rat) \<le> 1 \<and> (0::rat) \<le> 1 / 2 \<and> (1 / 2 :: rat) \<le> 1 \<and>
   0 \<le> compute_sympathy_score (- 1 / 2) (1 / 2) \<and>
   compute_sympathy_score (- 1 / 2) (1 / 2) \<le> 1"
proof -
  have h1: "- 1 \<le> (- 1 / 2 :: rat)" and h2: "(- 1 / 2 :: rat) \<le> 1"
    and h3: "(0::rat) \<le> 1 / 2" and h4: "(1 / 2 :: rat) \<le> 1"
    by simp_all
  from sympathy_score_properties [OF h1 h2 h3 h4]
  show ?thesis
    using h1 h2 h3 h4 by blast
qed

end
